theory Spec2Isabelle
  imports Complex_Main "HOL-Library.Log_Nat"
begin

section \<open>Numbers and rounding\<close>

text \<open>
  The calculator works on TypeScript values of type \<open>number\<close>. They are modelled as
  \<^typ>\<open>real\<close> with exact arithmetic: the representation error of IEEE-754 doubles, NaN and
  the infinities are outside the model. Every division of the engine is by a non-zero
  literal (\<open>100\<close>, \<open>12\<close>) or is guarded by a test of the divisor.

  The exact functions and the code agree on the structure of the results and on every
  value that no operation has to round. They can differ by one where an exact product
  sits on a tie that the rounded double misses (\<open>calculateDA(100975, 58)\<close>). The
  section on double precision below repeats the enhanced calculator with every
  operation rounded to a double; what is said about the rounded values themselves is
  said there.

  \<open>Math.round\<close> returns the integer nearest to its argument and, when the fractional part
  is exactly one half, the next integer in the direction of plus infinity.
\<close>

definition Math_round :: "real \<Rightarrow> real" where
  "Math_round x = of_int \<lfloor>x + 1 / 2\<rfloor>"

section \<open>Reference data (ugc-data.ts)\<close>

text \<open>The city classes \<open>'X'\<close>, \<open>'Y'\<close> and \<open>'Z'\<close>.\<close>

datatype CityType = CityX | CityY | CityZ

datatype FinancialStrategy = Multiplier | Premium | Both | Higher | Lower

datatype MultiplierMethod = MethodA | MethodB

text \<open>
  \<open>PAY_MATRIX\<close> is a \<open>Record<string, number[]>\<close>: a finite map from the level name to
  the ladder of basic-pay amounts. These are the keys written in the table. The table is
  an object literal, so a lookup \<open>PAY_MATRIX[level]\<close> also finds the properties
  inherited from \<open>Object.prototype\<close>; the section on the prototype chain below models
  that lookup.
\<close>

definition PAY_MATRIX :: "string \<rightharpoonup> real list" where
  "PAY_MATRIX = map_of
    [(''10'',
       [57700, 59400, 61200, 63000, 64900, 66800, 68800, 70900,
        73000, 75200, 77500, 79800, 82200, 84700, 87200, 89800,
        92500, 95300, 98200, 101100, 104100, 107200, 110400, 113700,
        117100, 120600, 124200, 127900, 131700, 135700, 139800, 144000,
        148300, 152700, 157300, 162000, 166900, 171900, 177100, 182400]),
     (''11'',
       [68900, 71000, 73100, 75300, 77600, 79900, 82300, 84800,
        87300, 89900, 92600, 95400, 98300, 101200, 104200, 107300,
        110500, 113800, 117200, 120700, 124300, 128000, 131800, 135800,
        139900, 144100, 148400, 152900, 157500, 162200, 167100, 172100,
        177300, 182600, 188100, 193700, 199500, 205500]),
     (''12'',
       [79800, 82200, 84100, 87200, 89800, 92500, 95300, 98200,
        101100, 104100, 107200, 110400, 113700, 117100, 120600, 124200,
        127900, 131700, 135700, 139800, 144000, 148300, 152700, 157300,
        162000, 166900, 171900, 177100, 182400, 187900, 193500, 199300,
        205300, 211500]),
     (''13A'',
       [131400, 135300, 139400, 143600, 147900, 152300, 156900, 161600,
        166400, 171400, 176500, 181800, 187300, 192900, 198700, 204100,
        210800, 217100]),
     (''14'',
       [144200, 148500, 153000, 157600, 162300, 167200, 172200, 177400,
        182100, 188200, 193800, 199600, 205600, 211800, 218200]),
     (''15'',
       [182200, 187700, 193300, 199100, 205100, 211300, 217600, 224100])]"

text \<open>\<open>HRA_RATES[cityType].rate\<close>: the house-rent percentage of the city class.\<close>

fun HRA_RATES_rate :: "CityType \<Rightarrow> real" where
  "HRA_RATES_rate CityX = 30"
| "HRA_RATES_rate CityY = 20"
| "HRA_RATES_rate CityZ = 10"

text \<open>\<open>TA_RATES\<close>: one pair (tptaCity, otherCity) for each bracket of levels.\<close>

record TARate =
  tptaCity :: real
  otherCity :: real

definition TA_RATES_level9Plus :: TARate where
  "TA_RATES_level9Plus = \<lparr>tptaCity = 7200, otherCity = 3600\<rparr>"

definition TA_RATES_level3to8 :: TARate where
  "TA_RATES_level3to8 = \<lparr>tptaCity = 3600, otherCity = 1800\<rparr>"

definition TA_RATES_level1to2 :: TARate where
  "TA_RATES_level1to2 = \<lparr>tptaCity = 1350, otherCity = 900\<rparr>"

section \<open>Settings types (settings-context.ts)\<close>

datatype EnforcementMode = Soft | Hard

datatype HraMode = HraPercent | HraLumpsum

record HraConfig =
  hc_providingHousing :: bool
  hc_stillProvideHra :: bool
  hc_hraMode :: HraMode
  hc_lumpSumValue :: real

record PositionPremiumRange =
  pr_minPremium :: real
  pr_maxPremium :: real

record PositionSalaryCap =
  cap_minWPUSalaryAnnual :: real
  cap_maxWPUSalaryAnnual :: real
  cap_maxWPUCTCAnnual :: real

section \<open>Records of the calculator (salary-calculator.ts)\<close>

text \<open>
  Several interfaces of the source share field names (\<open>basic\<close>, \<open>hraMode\<close>,
  \<open>totalMonthly\<close>, ...), and the functions use the same names for their parameters.
  Each record therefore prefixes its fields: \<open>ben_\<close> for \<open>Benefits\<close>, \<open>ugc_\<close> for
  \<open>UGCSalaryBreakdown\<close>, \<open>enf_\<close> for \<open>EnforcementStatus\<close>, \<open>bb_\<close> for
  \<open>BenefitsBreakdown\<close>, \<open>wpu_\<close> for \<open>WPUSalaryBreakdown\<close> and \<open>cmp_\<close> for
  \<open>ComparisonResult\<close>.
\<close>

text \<open>The tag \<open>'percent' | 'lumpsum' | 'none'\<close> carried by a computed HRA.\<close>

datatype HraResultMode = ModePercent | ModeLumpsum | ModeNone

record Benefits =
  ben_housing :: real
  ben_professionalDev :: real
  ben_ppfPercent :: real
  ben_gratuityPercent :: real
  ben_healthInsurance :: real

record UGCSalaryBreakdown =
  ugc_basic :: real
  ugc_da :: real
  ugc_hra :: real
  ugc_hraMode :: HraResultMode
  ugc_ta :: real
  ugc_specialAllowance :: real
  ugc_totalMonthly :: real
  ugc_totalAnnual :: real

record EnforcementStatus =
  enf_salaryCapped :: bool
  enf_salaryBelowMin :: bool
  enf_ctcCapped :: bool
  enf_premiumBelowMin :: bool
  enf_premiumAboveMax :: bool
  enf_originalSalaryAnnual :: real
  enf_originalCTCAnnual :: real

record BenefitsBreakdown =
  bb_housing :: real
  bb_professionalDev :: real
  bb_ppfAmount :: real
  bb_gratuityAmount :: real
  bb_healthInsurance :: real
  bb_totalMonthly :: real
  bb_totalAnnual :: real

record WPUSalaryBreakdown =
  wpu_basic :: real
  wpu_da :: real
  wpu_hra :: real
  wpu_hraMode :: HraResultMode
  wpu_ta :: real
  wpu_specialAllowance :: real
  wpu_multiplierBonus :: real
  wpu_premiumMonthly :: real
  wpu_totalSalaryMonthly :: real
  wpu_totalSalaryAnnual :: real
  wpu_benefits :: BenefitsBreakdown
  wpu_totalCTCMonthly :: real
  wpu_totalCTCAnnual :: real
  wpu_method :: MultiplierMethod
  wpu_strategy :: FinancialStrategy
  wpu_enforcement :: EnforcementStatus

record ComparisonResult =
  cmp_ugc :: UGCSalaryBreakdown
  cmp_wpu :: WPUSalaryBreakdown
  cmp_premiumAmountMonthly :: real
  cmp_premiumAmountAnnual :: real
  cmp_premiumPercentage :: real

section \<open>Pay-matrix lookup\<close>

text \<open>
  \<open>getCellAmount\<close>: the guard \<open>!cells || cellIndex < 0 || cellIndex >= cells.length\<close>
  returns 0; otherwise the cell is read. The cell index is an array index and is modelled
  as an integer. This is the number the function returns when the lookup finds a key of
  the table or nothing; \<open>getCellAmount_chain\<close> below follows the lookup through the
  prototype chain, where the function can return \<open>undefined\<close>.
\<close>

definition getCellAmount :: "string \<Rightarrow> int \<Rightarrow> real" where
  "getCellAmount level cellIndex =
     (case PAY_MATRIX level of
        None \<Rightarrow> 0
      | Some cells \<Rightarrow>
          if cellIndex < 0 \<or> cellIndex \<ge> int (length cells) then 0
          else cells ! nat cellIndex)"

section \<open>parseInt\<close>

text \<open>
  \<open>parseInt(level)\<close> without a radix: leading white space is skipped, one sign is read,
  a prefix \<open>0x\<close> or \<open>0X\<close> selects radix 16 (radix 10 otherwise), and the longest prefix
  of digits of that radix is the value. With no digit the result is NaN, here \<open>None\<close>.
  Strings are lists of 8-bit characters, so the white space is that of the ASCII range.
\<close>

definition isWhiteSpace :: "char \<Rightarrow> bool" where
  "isWhiteSpace c = (c \<in> set [CHR 0x09, CHR 0x0A, CHR 0x0B, CHR 0x0C, CHR 0x0D, CHR 0x20])"

definition digitValue :: "char \<Rightarrow> nat option" where
  "digitValue c =
     (let n = (of_char c :: nat) in
      if 48 \<le> n \<and> n \<le> 57 then Some (n - 48)
      else if 97 \<le> n \<and> n \<le> 122 then Some (n - 87)
      else if 65 \<le> n \<and> n \<le> 90 then Some (n - 55)
      else None)"

fun isRadixDigit :: "nat \<Rightarrow> char \<Rightarrow> bool" where
  "isRadixDigit R c = (case digitValue c of None \<Rightarrow> False | Some d \<Rightarrow> d < R)"

fun digitsValue :: "nat \<Rightarrow> nat \<Rightarrow> char list \<Rightarrow> nat" where
  "digitsValue R acc [] = acc"
| "digitsValue R acc (c # cs) =
     (case digitValue c of
        None \<Rightarrow> acc
      | Some d \<Rightarrow> digitsValue R (acc * R + d) cs)"

definition parseDigits :: "nat \<Rightarrow> string \<Rightarrow> nat option" where
  "parseDigits R s =
     (let z = takeWhile (isRadixDigit R) s in
      if z = [] then None else Some (digitsValue R 0 z))"

definition parseInt :: "string \<Rightarrow> int option" where
  "parseInt inputString =
     (let s = dropWhile isWhiteSpace inputString;
          sign = (if take 1 s = ''-'' then (-1 :: int) else 1);
          s = (if take 1 s = ''+'' \<or> take 1 s = ''-'' then drop 1 s else s);
          hex = (take 2 s = ''0x'' \<or> take 2 s = ''0X'');
          R = (if hex then 16 else 10);
          s = (if hex then drop 2 s else s)
      in map_option (\<lambda>n. sign * int n) (parseDigits R s))"

text \<open>A comparison \<open>levelNum >= k\<close> is false when \<open>levelNum\<close> is NaN.\<close>

definition num_ge :: "int option \<Rightarrow> int \<Rightarrow> bool" where
  "num_ge v k = (case v of None \<Rightarrow> False | Some n \<Rightarrow> n \<ge> k)"

section \<open>Baseline (UGC) calculator\<close>

definition calculateDA :: "real \<Rightarrow> real \<Rightarrow> real" where
  "calculateDA basic daPercent = Math_round (basic * (daPercent / 100))"

text \<open>
  \<open>calculateHRA\<close> returns the pair \<open>{amount, mode}\<close>. The optional \<open>hraConfig\<close> is
  \<open>None\<close> when the caller passes nothing.
\<close>

definition calculateHRA :: "real \<Rightarrow> CityType \<Rightarrow> HraConfig option \<Rightarrow> real \<times> HraResultMode" where
  "calculateHRA basic cityType hraConfig =
     (case hraConfig of
        None \<Rightarrow> (Math_round (basic * (HRA_RATES_rate cityType / 100)), ModePercent)
      | Some c \<Rightarrow>
          if hc_providingHousing c \<and> \<not> hc_stillProvideHra c then (0, ModeNone)
          else if hc_hraMode c = HraLumpsum then (hc_lumpSumValue c, ModeLumpsum)
          else (Math_round (basic * (HRA_RATES_rate cityType / 100)), ModePercent))"

definition calculateTA :: "string \<Rightarrow> real \<Rightarrow> bool \<Rightarrow> real" where
  "calculateTA level daPercent isTPTACity =
     (let levelNum = (if level = ''13A'' then Some 13 else parseInt level);
          taBase =
            (if num_ge levelNum 9 then
               (if isTPTACity then tptaCity TA_RATES_level9Plus else otherCity TA_RATES_level9Plus)
             else if num_ge levelNum 3 then
               (if isTPTACity then tptaCity TA_RATES_level3to8 else otherCity TA_RATES_level3to8)
             else
               (if isTPTACity then tptaCity TA_RATES_level1to2 else otherCity TA_RATES_level1to2));
          daOnTA = Math_round (taBase * (daPercent / 100))
      in taBase + daOnTA)"

definition calculateUGCSalary ::
  "real \<Rightarrow> real \<Rightarrow> CityType \<Rightarrow> string \<Rightarrow> real \<Rightarrow> bool \<Rightarrow> HraConfig option \<Rightarrow> UGCSalaryBreakdown" where
  "calculateUGCSalary basic daPercent cityType level specialAllowance isTPTACity hraConfig =
     (let da = calculateDA basic daPercent;
          hraResult = calculateHRA basic cityType hraConfig;
          ta = calculateTA level daPercent isTPTACity;
          totalMonthly = basic + da + fst hraResult + ta + specialAllowance
      in \<lparr>ugc_basic = basic,
          ugc_da = da,
          ugc_hra = fst hraResult,
          ugc_hraMode = snd hraResult,
          ugc_ta = ta,
          ugc_specialAllowance = specialAllowance,
          ugc_totalMonthly = totalMonthly,
          ugc_totalAnnual = totalMonthly * 12\<rparr>)"

section \<open>Benefits calculator\<close>

definition calculateBenefits :: "real \<Rightarrow> Benefits \<Rightarrow> BenefitsBreakdown" where
  "calculateBenefits basic benefits =
     (let ppfAmount = Math_round (basic * (ben_ppfPercent benefits / 100));
          gratuityAmount = Math_round (basic * (ben_gratuityPercent benefits / 100));
          totalMonthly = ben_housing benefits + ben_professionalDev benefits + ppfAmount
                         + gratuityAmount + ben_healthInsurance benefits
      in \<lparr>bb_housing = ben_housing benefits,
          bb_professionalDev = ben_professionalDev benefits,
          bb_ppfAmount = ppfAmount,
          bb_gratuityAmount = gratuityAmount,
          bb_healthInsurance = ben_healthInsurance benefits,
          bb_totalMonthly = totalMonthly,
          bb_totalAnnual = totalMonthly * 12\<rparr>)"

section \<open>Enhanced (WPU) calculator\<close>

text \<open>
  \<open>calculateWPUSalary\<close> assigns its local variables in three stages, and the model has
  one definition for each, in the order of the source.

  Stage 1, the \<open>if (method === 'methodA')\<close> statement, sets
  \<open>(wpuBasic, wpuDA, wpuHRA, hraMode, wpuTA, multiplierBonus)\<close>.
\<close>

definition methodComponents ::
  "UGCSalaryBreakdown \<Rightarrow> real \<Rightarrow> MultiplierMethod \<Rightarrow> real \<Rightarrow> CityType \<Rightarrow> string \<Rightarrow> real \<Rightarrow> bool
     \<Rightarrow> HraConfig option \<Rightarrow> real \<times> real \<times> real \<times> HraResultMode \<times> real \<times> real" where
  "methodComponents ugcSalary multiplier method daPercent cityType level specialAllowance
       isTPTACity hraConfig =
     (case method of
        MethodA \<Rightarrow>
          (let wpuBasic = ugc_basic ugcSalary;
               wpuDA = ugc_da ugcSalary;
               hraResult = calculateHRA (ugc_basic ugcSalary) cityType hraConfig;
               wpuHRA = fst hraResult;
               hraMode = snd hraResult;
               wpuTA = ugc_ta ugcSalary;
               baseSalaryForMultiplier = wpuBasic + wpuDA + wpuHRA + wpuTA + specialAllowance;
               multiplierBonus = Math_round (baseSalaryForMultiplier * (multiplier - 1.0))
           in (wpuBasic, wpuDA, wpuHRA, hraMode, wpuTA, multiplierBonus))
      | MethodB \<Rightarrow>
          (let wpuBasic = Math_round (ugc_basic ugcSalary * multiplier);
               wpuDA = calculateDA wpuBasic daPercent;
               hraResult = calculateHRA wpuBasic cityType hraConfig;
               wpuHRA = fst hraResult;
               hraMode = snd hraResult;
               wpuTA = calculateTA level daPercent isTPTACity;
               multiplierBonus = 0
           in (wpuBasic, wpuDA, wpuHRA, hraMode, wpuTA, multiplierBonus)))"

text \<open>
  Stage 2, the \<open>switch (strategy)\<close> statement. The variables it may assign are kept in
  a record; the two arms that occur in the source are the multiplier arm (take
  \<open>multiplierResult\<close>, zero the premium line) and the premium arm (take
  \<open>premiumResult\<close>, zero the bonus line and, under method B, copy the baseline's
  components back).
\<close>

record Locals =
  wpuBasic :: real
  wpuDA :: real
  wpuHRA :: real
  hraMode :: HraResultMode
  wpuTA :: real
  totalSalaryMonthly :: real
  actualMultiplierBonus :: real
  actualPremiumMonthly :: real

definition multiplierArm :: "Locals \<Rightarrow> real \<Rightarrow> Locals" where
  "multiplierArm l multiplierResult =
     l\<lparr>totalSalaryMonthly := multiplierResult, actualPremiumMonthly := 0\<rparr>"

definition premiumArm :: "Locals \<Rightarrow> real \<Rightarrow> MultiplierMethod \<Rightarrow> UGCSalaryBreakdown \<Rightarrow> Locals" where
  "premiumArm l premiumResult method ugcSalary =
     (let l1 = l\<lparr>totalSalaryMonthly := premiumResult, actualMultiplierBonus := 0\<rparr>
      in if method = MethodB then
           l1\<lparr>wpuBasic := ugc_basic ugcSalary,
              wpuDA := ugc_da ugcSalary,
              wpuHRA := ugc_hra ugcSalary,
              hraMode := ugc_hraMode ugcSalary,
              wpuTA := ugc_ta ugcSalary\<rparr>
         else l1)"

definition strategySwitch ::
  "FinancialStrategy \<Rightarrow> MultiplierMethod \<Rightarrow> UGCSalaryBreakdown \<Rightarrow> Locals \<Rightarrow> real \<Rightarrow> real \<Rightarrow> real
     \<Rightarrow> real \<Rightarrow> Locals" where
  "strategySwitch strategy method ugcSalary l baseSalaryMonthly premiumMonthly multiplierResult
       premiumResult =
     (case strategy of
        Multiplier \<Rightarrow> multiplierArm l multiplierResult
      | Premium \<Rightarrow> premiumArm l premiumResult method ugcSalary
      | Both \<Rightarrow> l\<lparr>totalSalaryMonthly := baseSalaryMonthly + premiumMonthly\<rparr>
      | Higher \<Rightarrow>
          if multiplierResult \<ge> premiumResult then multiplierArm l multiplierResult
          else premiumArm l premiumResult method ugcSalary
      | Lower \<Rightarrow>
          if multiplierResult \<le> premiumResult then multiplierArm l multiplierResult
          else premiumArm l premiumResult method ugcSalary)"

text \<open>
  Stage 3, the \<open>if (salaryCap)\<close> statement. It sets the flags \<open>salaryBelowMin\<close>,
  \<open>salaryCapped\<close> and \<open>ctcCapped\<close> and, in hard mode, reassigns
  \<open>totalSalaryMonthly\<close> and \<open>totalCTCMonthly\<close>. The result is
  \<open>(salaryCapped, salaryBelowMin, ctcCapped, totalSalaryMonthly, totalCTCMonthly)\<close>.
\<close>

definition salaryCapBlock ::
  "EnforcementMode \<Rightarrow> PositionSalaryCap option \<Rightarrow> BenefitsBreakdown \<Rightarrow> real \<Rightarrow> real
     \<Rightarrow> bool \<times> bool \<times> bool \<times> real \<times> real" where
  "salaryCapBlock enforcementMode salaryCap benefitsBreakdown totalSalaryMonthly0 totalCTCMonthly0 =
     (case salaryCap of
        None \<Rightarrow> (False, False, False, totalSalaryMonthly0, totalCTCMonthly0)
      | Some cap \<Rightarrow>
          (let salaryBelowMin =
                 (cap_minWPUSalaryAnnual cap > 0
                  \<and> totalSalaryMonthly0 * 12 < cap_minWPUSalaryAnnual cap);
               salaryCapped =
                 (cap_maxWPUSalaryAnnual cap > 0
                  \<and> totalSalaryMonthly0 * 12 > cap_maxWPUSalaryAnnual cap);
               computedMaxCTC =
                 (if cap_maxWPUCTCAnnual cap > 0 then cap_maxWPUCTCAnnual cap
                  else if cap_maxWPUSalaryAnnual cap > 0
                       then cap_maxWPUSalaryAnnual cap + bb_totalAnnual benefitsBreakdown
                       else 0);
               ctcCapped = (computedMaxCTC > 0 \<and> totalCTCMonthly0 * 12 > computedMaxCTC)
           in if enforcementMode = Hard then
                (let totalSalaryMonthly1 =
                       (if salaryCapped then Math_round (cap_maxWPUSalaryAnnual cap / 12)
                        else totalSalaryMonthly0);
                     totalCTCMonthly1 = totalSalaryMonthly1 + bb_totalMonthly benefitsBreakdown
                 in if computedMaxCTC > 0 \<and> totalCTCMonthly1 * 12 > computedMaxCTC
                    then (salaryCapped, salaryBelowMin, True, totalSalaryMonthly1,
                          Math_round (computedMaxCTC / 12))
                    else (salaryCapped, salaryBelowMin, ctcCapped, totalSalaryMonthly1,
                          totalCTCMonthly1))
              else (salaryCapped, salaryBelowMin, ctcCapped, totalSalaryMonthly0,
                    totalCTCMonthly0)))"

text \<open>
  The function itself. The parameters with a default value (\<open>specialAllowance = 0\<close>,
  \<open>isTPTACity = false\<close>, \<open>enforcementMode = 'soft'\<close>) are ordinary arguments here; the
  optional ones (\<open>hraConfig\<close>, \<open>premiumRange\<close>, \<open>salaryCap\<close>) are options.
  \<open>totalSalaryMonthly\<close> is declared without a value and assigned by every arm of the
  switch; the record of locals starts it at 0.
\<close>

definition calculateWPUSalary ::
  "UGCSalaryBreakdown \<Rightarrow> real \<Rightarrow> real \<Rightarrow> FinancialStrategy \<Rightarrow> MultiplierMethod \<Rightarrow> Benefits
     \<Rightarrow> real \<Rightarrow> CityType \<Rightarrow> string \<Rightarrow> real \<Rightarrow> bool \<Rightarrow> HraConfig option \<Rightarrow> EnforcementMode
     \<Rightarrow> PositionPremiumRange option \<Rightarrow> PositionSalaryCap option \<Rightarrow> WPUSalaryBreakdown" where
  "calculateWPUSalary ugcSalary multiplier annualPremium strategy method benefits daPercent
       cityType level specialAllowance isTPTACity hraConfig enforcementMode premiumRange
       salaryCap =
     (case methodComponents ugcSalary multiplier method daPercent cityType level
             specialAllowance isTPTACity hraConfig of
        (wpuBasic0, wpuDA0, wpuHRA0, hraMode0, wpuTA0, multiplierBonus) \<Rightarrow>
     (let baseSalaryMonthly =
            wpuBasic0 + wpuDA0 + wpuHRA0 + wpuTA0 + specialAllowance + multiplierBonus;
          premiumMonthly = Math_round (annualPremium / 12);
          multiplierResult = baseSalaryMonthly;
          premiumResult = ugc_totalMonthly ugcSalary + premiumMonthly;
          l = strategySwitch strategy method ugcSalary
                \<lparr>wpuBasic = wpuBasic0, wpuDA = wpuDA0, wpuHRA = wpuHRA0, hraMode = hraMode0,
                 wpuTA = wpuTA0, totalSalaryMonthly = 0,
                 actualMultiplierBonus = multiplierBonus,
                 actualPremiumMonthly = premiumMonthly\<rparr>
                baseSalaryMonthly premiumMonthly multiplierResult premiumResult;
          benefitsBreakdown = calculateBenefits (wpuBasic l) benefits;
          totalCTCMonthly0 = totalSalaryMonthly l + bb_totalMonthly benefitsBreakdown;
          originalSalaryAnnual = totalSalaryMonthly l * 12;
          originalCTCAnnual = totalCTCMonthly0 * 12;
          premiumAboveMax =
            (case premiumRange of
               None \<Rightarrow> False
             | Some r \<Rightarrow> pr_maxPremium r > 0 \<and> annualPremium > pr_maxPremium r);
          premiumBelowMin =
            (case premiumRange of
               None \<Rightarrow> False
             | Some r \<Rightarrow> pr_minPremium r > 0 \<and> annualPremium < pr_minPremium r)
      in case salaryCapBlock enforcementMode salaryCap benefitsBreakdown
                (totalSalaryMonthly l) totalCTCMonthly0 of
           (salaryCapped, salaryBelowMin, ctcCapped, totalSalaryMonthly1, totalCTCMonthly1) \<Rightarrow>
             \<lparr>wpu_basic = wpuBasic l,
              wpu_da = wpuDA l,
              wpu_hra = wpuHRA l,
              wpu_hraMode = hraMode l,
              wpu_ta = wpuTA l,
              wpu_specialAllowance = specialAllowance,
              wpu_multiplierBonus = actualMultiplierBonus l,
              wpu_premiumMonthly = actualPremiumMonthly l,
              wpu_totalSalaryMonthly = totalSalaryMonthly1,
              wpu_totalSalaryAnnual = totalSalaryMonthly1 * 12,
              wpu_benefits = benefitsBreakdown,
              wpu_totalCTCMonthly = totalCTCMonthly1,
              wpu_totalCTCAnnual = totalCTCMonthly1 * 12,
              wpu_method = method,
              wpu_strategy = strategy,
              wpu_enforcement =
                \<lparr>enf_salaryCapped = salaryCapped,
                 enf_salaryBelowMin = salaryBelowMin,
                 enf_ctcCapped = ctcCapped,
                 enf_premiumBelowMin = premiumBelowMin,
                 enf_premiumAboveMax = premiumAboveMax,
                 enf_originalSalaryAnnual = originalSalaryAnnual,
                 enf_originalCTCAnnual = originalCTCAnnual\<rparr>\<rparr>))"

section \<open>Comparison orchestrator\<close>

text \<open>
  \<open>calculateComparison\<close> calls \<open>calculateUGCSalary\<close> with six arguments: its seventh
  parameter, the housing configuration, is left undefined (\<open>None\<close>).
\<close>

definition calculateComparison ::
  "string \<Rightarrow> int \<Rightarrow> real \<Rightarrow> CityType \<Rightarrow> real \<Rightarrow> real \<Rightarrow> FinancialStrategy \<Rightarrow> MultiplierMethod
     \<Rightarrow> Benefits \<Rightarrow> real \<Rightarrow> bool \<Rightarrow> HraConfig option \<Rightarrow> EnforcementMode
     \<Rightarrow> PositionPremiumRange option \<Rightarrow> PositionSalaryCap option \<Rightarrow> ComparisonResult" where
  "calculateComparison level cellIndex daPercent cityType multiplier annualPremium strategy
       method benefits specialAllowance isTPTACity hraConfig enforcementMode premiumRange
       salaryCap =
     (let basic = getCellAmount level cellIndex;
          ugc = calculateUGCSalary basic daPercent cityType level specialAllowance isTPTACity
                  None;
          wpu = calculateWPUSalary ugc multiplier annualPremium strategy method benefits
                  daPercent cityType level specialAllowance isTPTACity hraConfig
                  enforcementMode premiumRange salaryCap;
          premiumAmountMonthly = wpu_totalCTCMonthly wpu - ugc_totalMonthly ugc;
          premiumAmountAnnual = premiumAmountMonthly * 12;
          premiumPercentage =
            (if ugc_totalMonthly ugc > 0
             then (premiumAmountMonthly / ugc_totalMonthly ugc) * 100
             else 0)
      in \<lparr>cmp_ugc = ugc,
          cmp_wpu = wpu,
          cmp_premiumAmountMonthly = premiumAmountMonthly,
          cmp_premiumAmountAnnual = premiumAmountAnnual,
          cmp_premiumPercentage = premiumPercentage\<rparr>)"

section \<open>The lookup through the prototype chain\<close>

text \<open>
  \<open>PAY_MATRIX[level]\<close> is a property lookup on an object literal. It yields the array
  of an own key, or a property inherited from \<open>Object.prototype\<close>, or \<open>undefined\<close>.
  The inherited properties are functions, each with its \<open>length\<close> (the number of
  declared parameters), and \<open>__proto__\<close>, which yields the prototype object itself, an
  object without a \<open>length\<close>.
\<close>

datatype Property = Undefined | Cells "real list" | InheritedFunction nat | InheritedObject

definition Object_prototype :: "string \<rightharpoonup> Property" where
  "Object_prototype = map_of
    [(''constructor'', InheritedFunction 1),
     (''__defineGetter__'', InheritedFunction 2),
     (''__defineSetter__'', InheritedFunction 2),
     (''hasOwnProperty'', InheritedFunction 1),
     (''__lookupGetter__'', InheritedFunction 1),
     (''__lookupSetter__'', InheritedFunction 1),
     (''isPrototypeOf'', InheritedFunction 1),
     (''propertyIsEnumerable'', InheritedFunction 1),
     (''toString'', InheritedFunction 0),
     (''valueOf'', InheritedFunction 0),
     (''toLocaleString'', InheritedFunction 0),
     (''__proto__'', InheritedObject)]"

definition PAY_MATRIX_chain :: "string \<Rightarrow> Property" where
  "PAY_MATRIX_chain level =
     (case PAY_MATRIX level of
        Some cells \<Rightarrow> Cells cells
      | None \<Rightarrow> (case Object_prototype level of Some p \<Rightarrow> p | None \<Rightarrow> Undefined))"

text \<open>
  \<open>getCellAmount\<close> on that lookup; the result \<open>None\<close> is \<open>undefined\<close>. A function and
  the prototype object are truthy, so \<open>!cells\<close> is false for them. A function has no
  indexed elements, so \<open>cells[cellIndex]\<close> is \<open>undefined\<close> when the index is below its
  \<open>length\<close>. For the prototype object \<open>cells.length\<close> is \<open>undefined\<close>, the comparison
  \<open>cellIndex >= cells.length\<close> is false and \<open>cells[cellIndex]\<close> is \<open>undefined\<close>.
\<close>

definition getCellAmount_chain :: "string \<Rightarrow> int \<Rightarrow> real option" where
  "getCellAmount_chain level cellIndex =
     (case PAY_MATRIX_chain level of
        Undefined \<Rightarrow> Some 0
      | Cells cells \<Rightarrow>
          if cellIndex < 0 \<or> cellIndex \<ge> int (length cells) then Some 0
          else Some (cells ! nat cellIndex)
      | InheritedFunction n \<Rightarrow>
          if cellIndex < 0 \<or> cellIndex \<ge> int n then Some 0 else None
      | InheritedObject \<Rightarrow>
          if cellIndex < 0 then Some 0 else None)"

section \<open>Double-precision arithmetic\<close>

text \<open>
  A JavaScript number is an IEEE-754 double, and each arithmetic operation returns the
  double nearest to the exact result, a tie going to the even significand. \<open>binade x\<close>
  is the exponent \<open>e\<close> with \<open>2^e \<le> |x| < 2^(e+1)\<close>; a double of that binade is a
  multiple of \<open>2^(e-52)\<close>, and below \<open>2^(-1022)\<close> (the subnormal numbers) of
  \<open>2^(-1074)\<close>. \<open>fl\<close> rounds a real to the nearest double. Results beyond the largest
  double, which the code turns into an infinity, are outside the model, as are NaN and
  the sign of zero. \<open>Math.round\<close> is exact on doubles, so \<open>Math_round\<close> serves for
  both models.
\<close>

definition binade :: "real \<Rightarrow> int" where
  "binade x =
     (if \<bar>x\<bar> \<ge> 1 then bitlen \<lfloor>\<bar>x\<bar>\<rfloor> - 1
      else - bitlen (\<lceil>1 / \<bar>x\<bar>\<rceil> - 1))"

definition round_ties_even :: "real \<Rightarrow> int" where
  "round_ties_even t =
     (let n = \<lfloor>t\<rfloor>; d = t - of_int n
      in if d < 1 / 2 then n
         else if d > 1 / 2 then n + 1
         else if even n then n else n + 1)"

definition fl :: "real \<Rightarrow> real" where
  "fl x =
     (if x = 0 then 0
      else (let u = 2 powi (max (binade x) (- 1022) - 52)
            in of_int (round_ties_even (x / u)) * u))"

text \<open>The operators \<open>+\<close>, \<open>-\<close>, \<open>*\<close> and \<open>/\<close> on doubles.\<close>

definition js_add :: "real \<Rightarrow> real \<Rightarrow> real" where
  "js_add a b = fl (a + b)"

definition js_sub :: "real \<Rightarrow> real \<Rightarrow> real" where
  "js_sub a b = fl (a - b)"

definition js_mul :: "real \<Rightarrow> real \<Rightarrow> real" where
  "js_mul a b = fl (a * b)"

definition js_div :: "real \<Rightarrow> real \<Rightarrow> real" where
  "js_div a b = fl (a / b)"

section \<open>The enhanced calculator in double precision\<close>

text \<open>
  The functions that \<open>calculateWPUSalary\<close> runs, once more, with every operation of the
  source rounded as the code rounds it. A sum \<open>a + b + c\<close> of the source is
  \<open>(a + b) + c\<close>. The arguments are meant to be doubles; a decimal literal of the
  source such as \<open>1.3\<close> denotes \<open>fl 1.3\<close>. The arms of the switch that do no
  arithmetic, \<open>multiplierArm\<close> and \<open>premiumArm\<close>, are those of the exact model.
\<close>

definition calculateDA_double :: "real \<Rightarrow> real \<Rightarrow> real" where
  "calculateDA_double basic daPercent = Math_round (js_mul basic (js_div daPercent 100))"

definition calculateHRA_double ::
  "real \<Rightarrow> CityType \<Rightarrow> HraConfig option \<Rightarrow> real \<times> HraResultMode" where
  "calculateHRA_double basic cityType hraConfig =
     (case hraConfig of
        None \<Rightarrow>
          (Math_round (js_mul basic (js_div (HRA_RATES_rate cityType) 100)), ModePercent)
      | Some c \<Rightarrow>
          if hc_providingHousing c \<and> \<not> hc_stillProvideHra c then (0, ModeNone)
          else if hc_hraMode c = HraLumpsum then (hc_lumpSumValue c, ModeLumpsum)
          else (Math_round (js_mul basic (js_div (HRA_RATES_rate cityType) 100)),
                ModePercent))"

definition calculateTA_double :: "string \<Rightarrow> real \<Rightarrow> bool \<Rightarrow> real" where
  "calculateTA_double level daPercent isTPTACity =
     (let levelNum = (if level = ''13A'' then Some 13 else parseInt level);
          taBase =
            (if num_ge levelNum 9 then
               (if isTPTACity then tptaCity TA_RATES_level9Plus else otherCity TA_RATES_level9Plus)
             else if num_ge levelNum 3 then
               (if isTPTACity then tptaCity TA_RATES_level3to8 else otherCity TA_RATES_level3to8)
             else
               (if isTPTACity then tptaCity TA_RATES_level1to2 else otherCity TA_RATES_level1to2));
          daOnTA = Math_round (js_mul taBase (js_div daPercent 100))
      in js_add taBase daOnTA)"

definition calculateBenefits_double :: "real \<Rightarrow> Benefits \<Rightarrow> BenefitsBreakdown" where
  "calculateBenefits_double basic benefits =
     (let ppfAmount = Math_round (js_mul basic (js_div (ben_ppfPercent benefits) 100));
          gratuityAmount =
            Math_round (js_mul basic (js_div (ben_gratuityPercent benefits) 100));
          totalMonthly =
            js_add (js_add (js_add (js_add (ben_housing benefits)
              (ben_professionalDev benefits)) ppfAmount) gratuityAmount)
              (ben_healthInsurance benefits)
      in \<lparr>bb_housing = ben_housing benefits,
          bb_professionalDev = ben_professionalDev benefits,
          bb_ppfAmount = ppfAmount,
          bb_gratuityAmount = gratuityAmount,
          bb_healthInsurance = ben_healthInsurance benefits,
          bb_totalMonthly = totalMonthly,
          bb_totalAnnual = js_mul totalMonthly 12\<rparr>)"

definition methodComponents_double ::
  "UGCSalaryBreakdown \<Rightarrow> real \<Rightarrow> MultiplierMethod \<Rightarrow> real \<Rightarrow> CityType \<Rightarrow> string \<Rightarrow> real \<Rightarrow> bool
     \<Rightarrow> HraConfig option \<Rightarrow> real \<times> real \<times> real \<times> HraResultMode \<times> real \<times> real" where
  "methodComponents_double ugcSalary multiplier method daPercent cityType level
       specialAllowance isTPTACity hraConfig =
     (case method of
        MethodA \<Rightarrow>
          (let wpuBasic = ugc_basic ugcSalary;
               wpuDA = ugc_da ugcSalary;
               hraResult = calculateHRA_double (ugc_basic ugcSalary) cityType hraConfig;
               wpuHRA = fst hraResult;
               hraMode = snd hraResult;
               wpuTA = ugc_ta ugcSalary;
               baseSalaryForMultiplier =
                 js_add (js_add (js_add (js_add wpuBasic wpuDA) wpuHRA) wpuTA)
                   specialAllowance;
               multiplierBonus =
                 Math_round (js_mul baseSalaryForMultiplier (js_sub multiplier 1.0))
           in (wpuBasic, wpuDA, wpuHRA, hraMode, wpuTA, multiplierBonus))
      | MethodB \<Rightarrow>
          (let wpuBasic = Math_round (js_mul (ugc_basic ugcSalary) multiplier);
               wpuDA = calculateDA_double wpuBasic daPercent;
               hraResult = calculateHRA_double wpuBasic cityType hraConfig;
               wpuHRA = fst hraResult;
               hraMode = snd hraResult;
               wpuTA = calculateTA_double level daPercent isTPTACity;
               multiplierBonus = 0
           in (wpuBasic, wpuDA, wpuHRA, hraMode, wpuTA, multiplierBonus)))"

definition strategySwitch_double ::
  "FinancialStrategy \<Rightarrow> MultiplierMethod \<Rightarrow> UGCSalaryBreakdown \<Rightarrow> Locals \<Rightarrow> real \<Rightarrow> real \<Rightarrow> real
     \<Rightarrow> real \<Rightarrow> Locals" where
  "strategySwitch_double strategy method ugcSalary l baseSalaryMonthly premiumMonthly
       multiplierResult premiumResult =
     (case strategy of
        Multiplier \<Rightarrow> multiplierArm l multiplierResult
      | Premium \<Rightarrow> premiumArm l premiumResult method ugcSalary
      | Both \<Rightarrow> l\<lparr>totalSalaryMonthly := js_add baseSalaryMonthly premiumMonthly\<rparr>
      | Higher \<Rightarrow>
          if multiplierResult \<ge> premiumResult then multiplierArm l multiplierResult
          else premiumArm l premiumResult method ugcSalary
      | Lower \<Rightarrow>
          if multiplierResult \<le> premiumResult then multiplierArm l multiplierResult
          else premiumArm l premiumResult method ugcSalary)"

definition salaryCapBlock_double ::
  "EnforcementMode \<Rightarrow> PositionSalaryCap option \<Rightarrow> BenefitsBreakdown \<Rightarrow> real \<Rightarrow> real
     \<Rightarrow> bool \<times> bool \<times> bool \<times> real \<times> real" where
  "salaryCapBlock_double enforcementMode salaryCap benefitsBreakdown totalSalaryMonthly0
       totalCTCMonthly0 =
     (case salaryCap of
        None \<Rightarrow> (False, False, False, totalSalaryMonthly0, totalCTCMonthly0)
      | Some cap \<Rightarrow>
          (let salaryBelowMin =
                 (cap_minWPUSalaryAnnual cap > 0
                  \<and> js_mul totalSalaryMonthly0 12 < cap_minWPUSalaryAnnual cap);
               salaryCapped =
                 (cap_maxWPUSalaryAnnual cap > 0
                  \<and> js_mul totalSalaryMonthly0 12 > cap_maxWPUSalaryAnnual cap);
               computedMaxCTC =
                 (if cap_maxWPUCTCAnnual cap > 0 then cap_maxWPUCTCAnnual cap
                  else if cap_maxWPUSalaryAnnual cap > 0
                       then js_add (cap_maxWPUSalaryAnnual cap)
                              (bb_totalAnnual benefitsBreakdown)
                       else 0);
               ctcCapped =
                 (computedMaxCTC > 0 \<and> js_mul totalCTCMonthly0 12 > computedMaxCTC)
           in if enforcementMode = Hard then
                (let totalSalaryMonthly1 =
                       (if salaryCapped
                        then Math_round (js_div (cap_maxWPUSalaryAnnual cap) 12)
                        else totalSalaryMonthly0);
                     totalCTCMonthly1 =
                       js_add totalSalaryMonthly1 (bb_totalMonthly benefitsBreakdown)
                 in if computedMaxCTC > 0 \<and> js_mul totalCTCMonthly1 12 > computedMaxCTC
                    then (salaryCapped, salaryBelowMin, True, totalSalaryMonthly1,
                          Math_round (js_div computedMaxCTC 12))
                    else (salaryCapped, salaryBelowMin, ctcCapped, totalSalaryMonthly1,
                          totalCTCMonthly1))
              else (salaryCapped, salaryBelowMin, ctcCapped, totalSalaryMonthly0,
                    totalCTCMonthly0)))"

definition calculateWPUSalary_double ::
  "UGCSalaryBreakdown \<Rightarrow> real \<Rightarrow> real \<Rightarrow> FinancialStrategy \<Rightarrow> MultiplierMethod \<Rightarrow> Benefits
     \<Rightarrow> real \<Rightarrow> CityType \<Rightarrow> string \<Rightarrow> real \<Rightarrow> bool \<Rightarrow> HraConfig option \<Rightarrow> EnforcementMode
     \<Rightarrow> PositionPremiumRange option \<Rightarrow> PositionSalaryCap option \<Rightarrow> WPUSalaryBreakdown" where
  "calculateWPUSalary_double ugcSalary multiplier annualPremium strategy method benefits
       daPercent cityType level specialAllowance isTPTACity hraConfig enforcementMode
       premiumRange salaryCap =
     (case methodComponents_double ugcSalary multiplier method daPercent cityType level
             specialAllowance isTPTACity hraConfig of
        (wpuBasic0, wpuDA0, wpuHRA0, hraMode0, wpuTA0, multiplierBonus) \<Rightarrow>
     (let baseSalaryMonthly =
            js_add (js_add (js_add (js_add (js_add wpuBasic0 wpuDA0) wpuHRA0) wpuTA0)
              specialAllowance) multiplierBonus;
          premiumMonthly = Math_round (js_div annualPremium 12);
          multiplierResult = baseSalaryMonthly;
          premiumResult = js_add (ugc_totalMonthly ugcSalary) premiumMonthly;
          l = strategySwitch_double strategy method ugcSalary
                \<lparr>wpuBasic = wpuBasic0, wpuDA = wpuDA0, wpuHRA = wpuHRA0, hraMode = hraMode0,
                 wpuTA = wpuTA0, totalSalaryMonthly = 0,
                 actualMultiplierBonus = multiplierBonus,
                 actualPremiumMonthly = premiumMonthly\<rparr>
                baseSalaryMonthly premiumMonthly multiplierResult premiumResult;
          benefitsBreakdown = calculateBenefits_double (wpuBasic l) benefits;
          totalCTCMonthly0 =
            js_add (totalSalaryMonthly l) (bb_totalMonthly benefitsBreakdown);
          originalSalaryAnnual = js_mul (totalSalaryMonthly l) 12;
          originalCTCAnnual = js_mul totalCTCMonthly0 12;
          premiumAboveMax =
            (case premiumRange of
               None \<Rightarrow> False
             | Some r \<Rightarrow> pr_maxPremium r > 0 \<and> annualPremium > pr_maxPremium r);
          premiumBelowMin =
            (case premiumRange of
               None \<Rightarrow> False
             | Some r \<Rightarrow> pr_minPremium r > 0 \<and> annualPremium < pr_minPremium r)
      in case salaryCapBlock_double enforcementMode salaryCap benefitsBreakdown
                (totalSalaryMonthly l) totalCTCMonthly0 of
           (salaryCapped, salaryBelowMin, ctcCapped, totalSalaryMonthly1, totalCTCMonthly1) \<Rightarrow>
             \<lparr>wpu_basic = wpuBasic l,
              wpu_da = wpuDA l,
              wpu_hra = wpuHRA l,
              wpu_hraMode = hraMode l,
              wpu_ta = wpuTA l,
              wpu_specialAllowance = specialAllowance,
              wpu_multiplierBonus = actualMultiplierBonus l,
              wpu_premiumMonthly = actualPremiumMonthly l,
              wpu_totalSalaryMonthly = totalSalaryMonthly1,
              wpu_totalSalaryAnnual = js_mul totalSalaryMonthly1 12,
              wpu_benefits = benefitsBreakdown,
              wpu_totalCTCMonthly = totalCTCMonthly1,
              wpu_totalCTCAnnual = js_mul totalCTCMonthly1 12,
              wpu_method = method,
              wpu_strategy = strategy,
              wpu_enforcement =
                \<lparr>enf_salaryCapped = salaryCapped,
                 enf_salaryBelowMin = salaryBelowMin,
                 enf_ctcCapped = ctcCapped,
                 enf_premiumBelowMin = premiumBelowMin,
                 enf_premiumAboveMax = premiumAboveMax,
                 enf_originalSalaryAnnual = originalSalaryAnnual,
                 enf_originalCTCAnnual = originalCTCAnnual\<rparr>\<rparr>))"


section \<open>Rounding as the specification words it\<close>

text \<open>
  The specification calls the engine's rounding "round half away from zero". That
  rule, written from the specification's words and not from the code, is the function
  below; it is compared with \<open>Math_round\<close> further down.
\<close>

definition round_half_away_from_zero :: "real \<Rightarrow> real" where
  "round_half_away_from_zero x =
     (if x \<ge> 0 then of_int \<lfloor>x + 1 / 2\<rfloor> else - of_int \<lfloor>- x + 1 / 2\<rfloor>)"

section \<open>Concrete inputs\<close>

text \<open>\<open>DEFAULT_GLOBAL_BENEFITS\<close> and the salary cap of position 1, as in settings-context.ts.\<close>

definition DEFAULT_GLOBAL_BENEFITS :: Benefits where
  "DEFAULT_GLOBAL_BENEFITS =
     \<lparr>ben_housing = 36250, ben_professionalDev = 8333, ben_ppfPercent = 12,
      ben_gratuityPercent = 4.81, ben_healthInsurance = 1250\<rparr>"

definition capPosition1 :: PositionSalaryCap where
  "capPosition1 =
     \<lparr>cap_minWPUSalaryAnnual = 1500000, cap_maxWPUSalaryAnnual = 2300000,
      cap_maxWPUCTCAnnual = 0\<rparr>"

text \<open>A cap with only a salary maximum, and a housing configuration paying a lump sum.\<close>

definition capMaxOnly :: PositionSalaryCap where
  "capMaxOnly =
     \<lparr>cap_minWPUSalaryAnnual = 0, cap_maxWPUSalaryAnnual = 1690948, cap_maxWPUCTCAnnual = 0\<rparr>"

definition lumpSumHousing :: HraConfig where
  "lumpSumHousing =
     \<lparr>hc_providingHousing = True, hc_stillProvideHra = True, hc_hraMode = HraLumpsum,
      hc_lumpSumValue = 11540.25\<rparr>"

text \<open>The baseline of level 10 at cell 0 (basic 57700) and at cell 10 (basic 77500).\<close>

definition baselineCell0 :: UGCSalaryBreakdown where
  "baselineCell0 = calculateUGCSalary 57700 58 CityY ''10'' 0 False None"

definition baselineCell10 :: UGCSalaryBreakdown where
  "baselineCell10 = calculateUGCSalary 77500 58 CityY ''10'' 0 False None"

text \<open>
  Calls of the enhanced calculator and of the orchestrator on these inputs. The last of
  the enhanced calls is in double precision, with a multiplier below 1; the percentage
  4.81 of the benefits is there the double nearest to it.
\<close>

definition cappedOffer :: WPUSalaryBreakdown where
  "cappedOffer =
     calculateWPUSalary baselineCell10 1.3 300000 Both MethodA DEFAULT_GLOBAL_BENEFITS 58 CityY
       ''10'' 0 False None Hard None (Some capPosition1)"

definition higherOffer :: "EnforcementMode \<Rightarrow> HraConfig option \<Rightarrow> WPUSalaryBreakdown" where
  "higherOffer enforcementMode hraConfig =
     calculateWPUSalary baselineCell0 1.3 420000 Higher MethodA DEFAULT_GLOBAL_BENEFITS 58 CityY
       ''10'' 0 False hraConfig enforcementMode None (Some capMaxOnly)"

definition lowerOffer :: "EnforcementMode \<Rightarrow> HraConfig option \<Rightarrow> WPUSalaryBreakdown" where
  "lowerOffer enforcementMode hraConfig =
     calculateWPUSalary baselineCell0 1.3 420000 Lower MethodA DEFAULT_GLOBAL_BENEFITS 58 CityY
       ''10'' 0 False hraConfig enforcementMode None (Some capMaxOnly)"

definition reducedOffer :: WPUSalaryBreakdown where
  "reducedOffer =
     calculateWPUSalary_double baselineCell0 0.75 0 Multiplier MethodA
       (DEFAULT_GLOBAL_BENEFITS\<lparr>ben_gratuityPercent := fl 4.81\<rparr>) 58 CityY
       ''10'' 0 False None Soft None None"

definition negativeBaseline :: ComparisonResult where
  "negativeBaseline =
     calculateComparison ''10'' 0 58 CityY 1.3 300000 Multiplier MethodA DEFAULT_GLOBAL_BENEFITS
       (- 200000) False None Soft None None"

section \<open>Evaluation and rounding lemmas\<close>

lemmas parse_defs = parseInt_def parseDigits_def digitValue_def isWhiteSpace_def num_ge_def

lemmas ta_defs =
  calculateTA_def TA_RATES_level9Plus_def TA_RATES_level3to8_def TA_RATES_level1to2_def

lemmas ugc_defs =
  calculateUGCSalary_def calculateDA_def calculateHRA_def ta_defs parse_defs Math_round_def

lemmas switch_defs = strategySwitch_def multiplierArm_def premiumArm_def

lemmas wpu_defs =
  calculateWPUSalary_def methodComponents_def switch_defs salaryCapBlock_def
  calculateBenefits_def

lemma baselineCell0_eq:
  "baselineCell0 =
     \<lparr>ugc_basic = 57700, ugc_da = 33466, ugc_hra = 11540, ugc_hraMode = ModePercent,
      ugc_ta = 5688, ugc_specialAllowance = 0, ugc_totalMonthly = 108394,
      ugc_totalAnnual = 1300728\<rparr>"
  by (simp add: baselineCell0_def ugc_defs Let_def)

lemma baselineCell10_eq:
  "baselineCell10 =
     \<lparr>ugc_basic = 77500, ugc_da = 44950, ugc_hra = 15500, ugc_hraMode = ModePercent,
      ugc_ta = 5688, ugc_specialAllowance = 0, ugc_totalMonthly = 143638,
      ugc_totalAnnual = 1723656\<rparr>"
  by (simp add: baselineCell10_def ugc_defs Let_def)

text \<open>
  \<open>Math.round\<close> stays within one half of its argument, and is not below a whole number
  that its argument has reached.
\<close>

lemma Math_round_bounds: "x - 1 / 2 < Math_round x \<and> Math_round x \<le> x + 1 / 2"
  unfolding Math_round_def by linarith

lemma whole_le_Math_round:
  assumes "t \<in> \<int>" and "t \<le> y"
  shows "t \<le> Math_round y"
proof -
  from assms(1) obtain k :: int where k: "t = of_int k"
    by (auto elim: Ints_cases)
  with assms(2) have "k \<le> \<lfloor>y\<rfloor>"
    by (simp add: le_floor_iff)
  also have "\<lfloor>y\<rfloor> \<le> \<lfloor>y + 1 / 2\<rfloor>"
    by (rule floor_mono) simp
  finally show ?thesis
    by (simp add: k Math_round_def)
qed

text \<open>
  Rounding a tie upwards and rounding it away from zero differ exactly on the arguments
  whose fractional part is one half.
\<close>

lemma floor_half_up_vs_down:
  fixes x :: real
  shows "\<lfloor>x + 1 / 2\<rfloor> = - \<lfloor>- x + 1 / 2\<rfloor> + (if frac x = 1 / 2 then 1 else 0)"
proof -
  define n where "n = \<lfloor>x\<rfloor>"
  define f where "f = frac x"
  have x: "x = of_int n + f"
    by (simp add: n_def f_def frac_def)
  have f0: "0 \<le> f" and f1: "f < 1"
    by (simp_all add: f_def frac_lt_1)
  consider "f < 1 / 2" | "f = 1 / 2" | "f > 1 / 2"
    by linarith
  then show ?thesis
  proof cases
    case 1
    have up: "\<lfloor>x + 1 / 2\<rfloor> = n"
      using 1 f0 x by (simp add: floor_eq_iff)
    have down: "\<lfloor>- x + 1 / 2\<rfloor> = - n"
      using 1 f0 x by (simp add: floor_eq_iff)
    from 1 have "frac x \<noteq> 1 / 2"
      by (simp add: f_def)
    with up down show ?thesis by simp
  next
    case 2
    have up: "\<lfloor>x + 1 / 2\<rfloor> = n + 1"
      using 2 x by (simp add: floor_eq_iff)
    have down: "\<lfloor>- x + 1 / 2\<rfloor> = - n"
      using 2 x by (simp add: floor_eq_iff)
    from 2 have "frac x = 1 / 2"
      by (simp add: f_def)
    with up down show ?thesis by simp
  next
    case 3
    have up: "\<lfloor>x + 1 / 2\<rfloor> = n + 1"
      using 3 f1 x by (simp add: floor_eq_iff)
    have down: "\<lfloor>- x + 1 / 2\<rfloor> = - n - 1"
      using 3 f1 x by (simp add: floor_eq_iff)
    from 3 have "frac x \<noteq> 1 / 2"
      by (simp add: f_def)
    with up down show ?thesis by simp
  qed
qed

lemma Math_round_vs_half_away:
  "Math_round x =
     (if x < 0 \<and> frac x = 1 / 2 then round_half_away_from_zero x + 1
      else round_half_away_from_zero x)"
  using floor_half_up_vs_down [of x]
  by (simp add: Math_round_def round_half_away_from_zero_def)

section \<open>The stages of the enhanced calculator\<close>

lemma strategySwitch_Higher_total:
  "totalSalaryMonthly (strategySwitch Higher meth u l bsm pm mr pr) = max mr pr"
  by (simp add: switch_defs Let_def max_def)

lemma strategySwitch_Lower_total:
  "totalSalaryMonthly (strategySwitch Lower meth u l bsm pm mr pr) = min mr pr"
  by (simp add: switch_defs Let_def min_def)

text \<open>
  The pre-clamp salary of the \<open>lower\<close> strategy never exceeds that of \<open>higher\<close>.
\<close>

lemma original_Lower_le_Higher:
  "enf_originalSalaryAnnual (wpu_enforcement
      (calculateWPUSalary u m ap Lower meth b dp ct lv sa tp hc em pr sc))
   \<le> enf_originalSalaryAnnual (wpu_enforcement
      (calculateWPUSalary u m ap Higher meth b dp ct lv sa tp hc em pr sc))"
  by (simp add: calculateWPUSalary_def Let_def case_prod_beta strategySwitch_Higher_total
      strategySwitch_Lower_total)

text \<open>
  What the \<open>if (salaryCap)\<close> statement does to the salary, in terms of the pre-clamp
  figure that the result records in \<open>enforcement.originalSalaryAnnual\<close>.
\<close>

lemma salaryCapBlock_salary:
  "fst (snd (snd (snd (salaryCapBlock em sc bb t c)))) =
     (case sc of
        None \<Rightarrow> t
      | Some cap \<Rightarrow>
          if em = Hard \<and> cap_maxWPUSalaryAnnual cap > 0
             \<and> t * 12 > cap_maxWPUSalaryAnnual cap
          then Math_round (cap_maxWPUSalaryAnnual cap / 12) else t)"
  by (simp add: salaryCapBlock_def Let_def split: option.splits)

lemma salaryCapBlock_salaryCapped:
  "fst (salaryCapBlock em sc bb t c) =
     (case sc of
        None \<Rightarrow> False
      | Some cap \<Rightarrow>
          cap_maxWPUSalaryAnnual cap > 0 \<and> t * 12 > cap_maxWPUSalaryAnnual cap)"
  by (simp add: salaryCapBlock_def Let_def split: option.splits)

lemma wpu_totalSalaryMonthly_uncapped:
  "wpu_totalSalaryMonthly (calculateWPUSalary u m ap s meth b dp ct lv sa tp hc em pr None) =
     enf_originalSalaryAnnual (wpu_enforcement
       (calculateWPUSalary u m ap s meth b dp ct lv sa tp hc em pr None)) / 12"
  by (simp add: calculateWPUSalary_def Let_def case_prod_beta salaryCapBlock_salary)

lemma wpu_totalSalaryMonthly_capped:
  "wpu_totalSalaryMonthly
      (calculateWPUSalary u m ap s meth b dp ct lv sa tp hc em pr (Some cap)) =
     (if em = Hard \<and> 0 < cap_maxWPUSalaryAnnual cap
         \<and> cap_maxWPUSalaryAnnual cap
           < enf_originalSalaryAnnual (wpu_enforcement
               (calculateWPUSalary u m ap s meth b dp ct lv sa tp hc em pr (Some cap)))
      then Math_round (cap_maxWPUSalaryAnnual cap / 12)
      else enf_originalSalaryAnnual (wpu_enforcement
             (calculateWPUSalary u m ap s meth b dp ct lv sa tp hc em pr (Some cap))) / 12)"
  by (simp add: calculateWPUSalary_def Let_def case_prod_beta salaryCapBlock_salary)

lemma wpu_salaryCapped:
  "enf_salaryCapped (wpu_enforcement
      (calculateWPUSalary u m ap s meth b dp ct lv sa tp hc em pr (Some cap))) =
     (0 < cap_maxWPUSalaryAnnual cap
      \<and> cap_maxWPUSalaryAnnual cap
        < enf_originalSalaryAnnual (wpu_enforcement
            (calculateWPUSalary u m ap s meth b dp ct lv sa tp hc em pr (Some cap))))"
  by (simp add: calculateWPUSalary_def Let_def case_prod_beta salaryCapBlock_salaryCapped)

lemma wpu_totalSalaryAnnual:
  "wpu_totalSalaryAnnual (calculateWPUSalary u m ap s meth b dp ct lv sa tp hc em pr sc) =
     wpu_totalSalaryMonthly (calculateWPUSalary u m ap s meth b dp ct lv sa tp hc em pr sc) * 12"
  by (simp add: calculateWPUSalary_def Let_def case_prod_beta)

section \<open>Whole-number amounts\<close>

text \<open>
  When the baseline's fields, the special allowance and a configured lump-sum HRA are
  whole numbers, every salary total of the enhanced calculator is a whole number: all
  other terms come out of \<open>Math.round\<close> or the transport table. The baseline
  calculator produces such fields from a whole basic pay and special allowance.
\<close>

lemma Math_round_whole: "Math_round x \<in> \<int>"
  by (simp add: Math_round_def)

lemma calculateTA_whole: "calculateTA lv dp tp \<in> \<int>"
  by (simp add: ta_defs Let_def Math_round_whole)

lemma calculateHRA_whole:
  assumes "\<forall>c. hc = Some c \<longrightarrow> hc_lumpSumValue c \<in> \<int>"
  shows "fst (calculateHRA basic ct hc) \<in> \<int>"
  using assms by (simp add: calculateHRA_def Math_round_whole split: option.splits)

lemma methodComponents_whole:
  assumes "ugc_basic u \<in> \<int>" and "ugc_da u \<in> \<int>" and "ugc_ta u \<in> \<int>" and "sa \<in> \<int>"
    and "\<forall>c. hc = Some c \<longrightarrow> hc_lumpSumValue c \<in> \<int>"
    and "methodComponents u m meth dp ct lv sa tp hc = (a, b0, c, d, e, f)"
  shows "a + b0 + c + e + sa + f \<in> \<int>"
proof (cases meth)
  case MethodA
  with assms(6) have "a = ugc_basic u" "b0 = ugc_da u" "c = fst (calculateHRA (ugc_basic u) ct hc)"
    "e = ugc_ta u" "f = Math_round ((a + b0 + c + e + sa) * (m - 1))"
    by (auto simp add: methodComponents_def Let_def)
  with assms(1-5) show ?thesis
    by (simp add: calculateHRA_whole Math_round_whole)
next
  case MethodB
  with assms(6) have "a = Math_round (ugc_basic u * m)" "b0 = calculateDA a dp"
    "c = fst (calculateHRA a ct hc)" "e = calculateTA lv dp tp" "f = 0"
    by (auto simp add: methodComponents_def Let_def)
  with assms(4,5) show ?thesis
    by (simp add: calculateHRA_whole Math_round_whole calculateTA_whole calculateDA_def)
qed

lemma strategySwitch_total_whole:
  assumes "base \<in> \<int>" and "pm \<in> \<int>" and "pres \<in> \<int>"
  shows "totalSalaryMonthly (strategySwitch s meth u l base pm base pres) \<in> \<int>"
  using assms by (cases s) (simp_all add: switch_defs Let_def)

lemma wpu_totalSalaryMonthly_whole:
  assumes "ugc_basic u \<in> \<int>" and "ugc_da u \<in> \<int>" and "ugc_ta u \<in> \<int>"
    and "ugc_totalMonthly u \<in> \<int>" and "sa \<in> \<int>"
    and "\<forall>c. hc = Some c \<longrightarrow> hc_lumpSumValue c \<in> \<int>"
  shows "wpu_totalSalaryMonthly
           (calculateWPUSalary u m ap s meth b dp ct lv sa tp hc em pr sc) \<in> \<int>"
proof -
  obtain a b0 c d e f where mc: "methodComponents u m meth dp ct lv sa tp hc = (a, b0, c, d, e, f)"
    by (cases "methodComponents u m meth dp ct lv sa tp hc") auto
  have base: "a + b0 + c + e + sa + f \<in> \<int>"
    using assms(1,2,3,5,6) mc by (rule methodComponents_whole)
  have pres: "ugc_totalMonthly u + Math_round (ap / 12) \<in> \<int>"
    using assms(4) by (simp add: Math_round_whole)
  show ?thesis
    by (simp add: calculateWPUSalary_def mc Let_def case_prod_beta salaryCapBlock_salary
        strategySwitch_total_whole [OF base Math_round_whole pres] Math_round_whole
        split: option.splits)
qed

lemma calculateUGCSalary_whole:
  assumes "basic \<in> \<int>" and "sa \<in> \<int>"
    and "\<forall>c. hc = Some c \<longrightarrow> hc_lumpSumValue c \<in> \<int>"
  shows "ugc_basic (calculateUGCSalary basic dp ct lv sa tp hc) \<in> \<int>"
    and "ugc_da (calculateUGCSalary basic dp ct lv sa tp hc) \<in> \<int>"
    and "ugc_ta (calculateUGCSalary basic dp ct lv sa tp hc) \<in> \<int>"
    and "ugc_totalMonthly (calculateUGCSalary basic dp ct lv sa tp hc) \<in> \<int>"
  using assms
  by (simp_all add: calculateUGCSalary_def calculateDA_def Let_def Math_round_whole
      calculateTA_whole calculateHRA_whole)

section \<open>The double-precision functions\<close>

lemmas double_defs =
  calculateWPUSalary_double_def methodComponents_double_def strategySwitch_double_def
  multiplierArm_def premiumArm_def

text \<open>
  Under method A and strategy \<open>multiplier\<close> the reported bonus is \<open>Math.round\<close> of the
  double product of the summed components and \<open>multiplier - 1.0\<close>.
\<close>

lemma multiplierBonus_double:
  "wpu_multiplierBonus
     (calculateWPUSalary_double u m ap Multiplier MethodA b dp ct lv sa tp hc em pr sc)
   = Math_round
       (js_mul
          (js_add (js_add (js_add (js_add (ugc_basic u) (ugc_da u))
             (fst (calculateHRA_double (ugc_basic u) ct hc))) (ugc_ta u)) sa)
          (js_sub m 1))"
  by (simp add: double_defs Let_def case_prod_beta)

text \<open>
  The two models at \<open>calculateDA(100975, 58)\<close>: the exact product is the tie 58565.5,
  the double product lies just below it.
\<close>

lemma calculateDA_double_at_tie:
  "calculateDA_double 100975 58 = 58565 \<and> calculateDA 100975 58 = 58566"
proof
  show "calculateDA_double 100975 58 = 58565"
    by code_simp
  show "calculateDA 100975 58 = 58566"
    by (simp add: calculateDA_def Math_round_def)
qed

section \<open>The lookup outside the inherited names\<close>

text \<open>
  For a level that is not the name of a property of \<open>Object.prototype\<close> the lookup
  through the prototype chain returns the number of \<open>getCellAmount\<close>, and the
  defensive zero holds.
\<close>

lemma getCellAmount_chain_agrees:
  assumes "level \<notin> dom Object_prototype"
  shows "getCellAmount_chain level cellIndex = Some (getCellAmount level cellIndex)"
  using assms
  by (auto simp add: getCellAmount_chain_def PAY_MATRIX_chain_def getCellAmount_def
      split: option.splits)

lemma getCellAmount_chain_defensive_zero:
  assumes "level \<notin> dom Object_prototype"
    and "level \<notin> dom PAY_MATRIX \<or> cellIndex < 0
         \<or> cellIndex \<ge> int (length (the (PAY_MATRIX level)))"
  shows "getCellAmount_chain level cellIndex = Some 0"
  using assms
  by (auto simp add: getCellAmount_chain_def PAY_MATRIX_chain_def split: option.splits)

section \<open>Claims\<close>

subsection \<open>C1: line items kept by the strategies\<close>

text \<open>
  Claim C1. Whatever the other inputs, strategy \<open>multiplier\<close> reports
  \<open>premiumMonthly = 0\<close>; strategy \<open>premium\<close> reports \<open>multiplierBonus = 0\<close> and,
  under method B, returns the baseline's basic, DA, HRA, TA and \<open>hraMode\<close>.
\<close>

theorem strategy_line_items:
  "wpu_premiumMonthly
     (calculateWPUSalary u m ap Multiplier meth b dp ct lv sa tp hc em pr sc) = 0
   \<and> wpu_multiplierBonus
       (calculateWPUSalary u m ap Premium meth b dp ct lv sa tp hc em pr sc) = 0
   \<and> wpu_basic (calculateWPUSalary u m ap Premium MethodB b dp ct lv sa tp hc em pr sc)
       = ugc_basic u
   \<and> wpu_da (calculateWPUSalary u m ap Premium MethodB b dp ct lv sa tp hc em pr sc)
       = ugc_da u
   \<and> wpu_hra (calculateWPUSalary u m ap Premium MethodB b dp ct lv sa tp hc em pr sc)
       = ugc_hra u
   \<and> wpu_ta (calculateWPUSalary u m ap Premium MethodB b dp ct lv sa tp hc em pr sc)
       = ugc_ta u
   \<and> wpu_hraMode (calculateWPUSalary u m ap Premium MethodB b dp ct lv sa tp hc em pr sc)
       = ugc_hraMode u"
  by (simp add: calculateWPUSalary_def switch_defs Let_def case_prod_beta)

subsection \<open>C2: the hard salary cap\<close>

text \<open>
  Claim C2, as amended. In hard mode with a positive \<open>maxWPUSalaryAnnual\<close>, when the
  pre-clamp annual salary (recorded in \<open>enforcement.originalSalaryAnnual\<close>) exceeds the
  maximum, \<open>salaryCapped\<close> is set, the monthly salary becomes
  \<open>Math.round(maxWPUSalaryAnnual / 12)\<close> and the annual salary is twelve times that
  rounded figure, which lies within 6 of the maximum.
\<close>

theorem hard_cap_clamps_salary:
  assumes "0 < cap_maxWPUSalaryAnnual cap"
    and "cap_maxWPUSalaryAnnual cap
         < enf_originalSalaryAnnual (wpu_enforcement
             (calculateWPUSalary u m ap s meth b dp ct lv sa tp hc Hard pr (Some cap)))"
  shows "enf_salaryCapped (wpu_enforcement
             (calculateWPUSalary u m ap s meth b dp ct lv sa tp hc Hard pr (Some cap)))
    \<and> wpu_totalSalaryMonthly (calculateWPUSalary u m ap s meth b dp ct lv sa tp hc Hard pr (Some cap))
        = Math_round (cap_maxWPUSalaryAnnual cap / 12)
    \<and> wpu_totalSalaryAnnual (calculateWPUSalary u m ap s meth b dp ct lv sa tp hc Hard pr (Some cap))
        = Math_round (cap_maxWPUSalaryAnnual cap / 12) * 12
    \<and> \<bar>wpu_totalSalaryAnnual (calculateWPUSalary u m ap s meth b dp ct lv sa tp hc Hard pr (Some cap))
        - cap_maxWPUSalaryAnnual cap\<bar> \<le> 6"
proof -
  let ?w = "calculateWPUSalary u m ap s meth b dp ct lv sa tp hc Hard pr (Some cap)"
  have capped: "enf_salaryCapped (wpu_enforcement ?w)"
    using assms by (simp add: wpu_salaryCapped)
  have monthly: "wpu_totalSalaryMonthly ?w = Math_round (cap_maxWPUSalaryAnnual cap / 12)"
    using assms by (simp add: wpu_totalSalaryMonthly_capped)
  have annual: "wpu_totalSalaryAnnual ?w = Math_round (cap_maxWPUSalaryAnnual cap / 12) * 12"
    by (simp add: wpu_totalSalaryAnnual monthly)
  have near: "\<bar>Math_round (cap_maxWPUSalaryAnnual cap / 12) * 12 - cap_maxWPUSalaryAnnual cap\<bar> \<le> 6"
    using Math_round_bounds [of "cap_maxWPUSalaryAnnual cap / 12"] by linarith
  from capped monthly annual near show ?thesis
    by simp
qed

text \<open>
  The theorem at the cap 2300000 of position 1: level 10, cell 10, multiplier 1.3 and an
  annual premium of 300000 added together. The clamped annual salary is 2300004.
\<close>

theorem hard_cap_clamps_salary_witness:
  "0 < cap_maxWPUSalaryAnnual capPosition1
   \<and> cap_maxWPUSalaryAnnual capPosition1 < enf_originalSalaryAnnual (wpu_enforcement cappedOffer)
   \<and> enf_salaryCapped (wpu_enforcement cappedOffer)
   \<and> wpu_totalSalaryMonthly cappedOffer = 191667
   \<and> wpu_totalSalaryAnnual cappedOffer = 2300004
   \<and> \<bar>wpu_totalSalaryAnnual cappedOffer - 2300000\<bar> \<le> 6"
  using hard_cap_clamps_salary [where cap = capPosition1 and u = baselineCell10 and m = "1.3"
      and ap = 300000 and s = Both and meth = MethodA and b = DEFAULT_GLOBAL_BENEFITS
      and dp = 58 and ct = CityY and lv = "''10''" and sa = 0 and tp = False and hc = None
      and pr = None]
  by (simp add: cappedOffer_def capPosition1_def baselineCell10_eq DEFAULT_GLOBAL_BENEFITS_def
      wpu_defs calculateHRA_def Math_round_def Let_def)

text \<open>
  Claim C2 as stated asks for a final annual salary equal to the configured maximum. On
  the same input the pre-clamp salary is 2540748, the cap is 2300000 and the final
  annual salary is 2300004.
\<close>

theorem hard_cap_exact_counterexample:
  "enf_originalSalaryAnnual (wpu_enforcement cappedOffer) = 2540748
   \<and> cap_maxWPUSalaryAnnual capPosition1 = 2300000
   \<and> enf_salaryCapped (wpu_enforcement cappedOffer)
   \<and> wpu_totalSalaryAnnual cappedOffer = 2300004
   \<and> wpu_totalSalaryAnnual cappedOffer \<noteq> cap_maxWPUSalaryAnnual capPosition1"
  by (simp add: cappedOffer_def capPosition1_def baselineCell10_eq DEFAULT_GLOBAL_BENEFITS_def
      wpu_defs calculateHRA_def Math_round_def Let_def)

subsection \<open>C3: the baseline of level 10, cell 0\<close>

text \<open>
  Claim C3. Level 10, cell 0 has basic pay 57700; with 58 percent dearness allowance,
  city class Y, no special allowance, a non-TPTA city and no housing configuration the
  baseline is DA 33466, HRA 11540 in percent mode, TA 5688 (3600 plus 2088), 108394 a
  month and 1300728 a year.
\<close>

theorem baseline_level10_cell0:
  "getCellAmount ''10'' 0 = 57700
   \<and> otherCity TA_RATES_level9Plus = 3600
   \<and> Math_round (3600 * (58 / 100)) = 2088
   \<and> calculateTA ''10'' 58 False = 3600 + 2088
   \<and> calculateUGCSalary (getCellAmount ''10'' 0) 58 CityY ''10'' 0 False None =
       \<lparr>ugc_basic = 57700, ugc_da = 33466, ugc_hra = 11540, ugc_hraMode = ModePercent,
        ugc_ta = 5688, ugc_specialAllowance = 0, ugc_totalMonthly = 108394,
        ugc_totalAnnual = 1300728\<rparr>"
  by (simp add: ugc_defs getCellAmount_def PAY_MATRIX_def Let_def)

subsection \<open>C4: soft mode leaves the money alone\<close>

text \<open>
  Claim C4. In soft mode the returned monthly salary and CTC are those of the same call
  without any range or cap, the annual figures equal the recorded original ones, and the
  whole result differs from the unconstrained one in its \<open>enforcement\<close> record only.
\<close>

theorem soft_mode_keeps_totals:
  "wpu_totalSalaryMonthly (calculateWPUSalary u m ap s meth b dp ct lv sa tp hc Soft pr sc)
     = wpu_totalSalaryMonthly
         (calculateWPUSalary u m ap s meth b dp ct lv sa tp hc Soft None None)
   \<and> wpu_totalCTCMonthly (calculateWPUSalary u m ap s meth b dp ct lv sa tp hc Soft pr sc)
     = wpu_totalCTCMonthly
         (calculateWPUSalary u m ap s meth b dp ct lv sa tp hc Soft None None)
   \<and> wpu_totalSalaryAnnual (calculateWPUSalary u m ap s meth b dp ct lv sa tp hc Soft pr sc)
     = enf_originalSalaryAnnual (wpu_enforcement
         (calculateWPUSalary u m ap s meth b dp ct lv sa tp hc Soft pr sc))
   \<and> wpu_totalCTCAnnual (calculateWPUSalary u m ap s meth b dp ct lv sa tp hc Soft pr sc)
     = enf_originalCTCAnnual (wpu_enforcement
         (calculateWPUSalary u m ap s meth b dp ct lv sa tp hc Soft pr sc))
   \<and> enf_originalSalaryAnnual (wpu_enforcement
         (calculateWPUSalary u m ap s meth b dp ct lv sa tp hc Soft pr sc))
     = enf_originalSalaryAnnual (wpu_enforcement
         (calculateWPUSalary u m ap s meth b dp ct lv sa tp hc Soft None None))
   \<and> enf_originalCTCAnnual (wpu_enforcement
         (calculateWPUSalary u m ap s meth b dp ct lv sa tp hc Soft pr sc))
     = enf_originalCTCAnnual (wpu_enforcement
         (calculateWPUSalary u m ap s meth b dp ct lv sa tp hc Soft None None))
   \<and> calculateWPUSalary u m ap s meth b dp ct lv sa tp hc Soft pr sc
     = (calculateWPUSalary u m ap s meth b dp ct lv sa tp hc Soft None None)
         \<lparr>wpu_enforcement := wpu_enforcement
            (calculateWPUSalary u m ap s meth b dp ct lv sa tp hc Soft pr sc)\<rparr>"
  by (simp add: calculateWPUSalary_def salaryCapBlock_def Let_def case_prod_beta
      split: option.splits)

subsection \<open>C5: higher against lower\<close>

text \<open>
  Claim C5, as amended. For identical inputs the final monthly salary of strategy
  \<open>higher\<close> is at least that of strategy \<open>lower\<close>. Where hard mode clamps the
  \<open>higher\<close> call (enforcement mode \<open>hard\<close> and its \<open>salaryCapped\<close> set), this holds
  provided the salary returned by the \<open>lower\<close> call is a whole number (by
  \<open>wpu_totalSalaryMonthly_whole\<close> it is one when the monetary inputs are). In soft
  mode, without a salary cap, and when the \<open>higher\<close> call is not capped, it holds
  without any proviso.
\<close>

theorem higher_ge_lower_whole:
  assumes "em = Hard
           \<and> enf_salaryCapped (wpu_enforcement
               (calculateWPUSalary u m ap Higher meth b dp ct lv sa tp hc em pr sc))
           \<longrightarrow> wpu_totalSalaryMonthly
                 (calculateWPUSalary u m ap Lower meth b dp ct lv sa tp hc em pr sc) \<in> \<int>"
  shows "wpu_totalSalaryMonthly (calculateWPUSalary u m ap Lower meth b dp ct lv sa tp hc em pr sc)
    \<le> wpu_totalSalaryMonthly (calculateWPUSalary u m ap Higher meth b dp ct lv sa tp hc em pr sc)"
proof (cases sc)
  case None
  show ?thesis
    using original_Lower_le_Higher [of u m ap meth b dp ct lv sa tp hc em pr None]
    unfolding None by (simp add: wpu_totalSalaryMonthly_uncapped)
next
  case (Some cap)
  define M where "M = cap_maxWPUSalaryAnnual cap"
  define hard where "hard \<longleftrightarrow> em = Hard"
  define lo where
    "lo = wpu_totalSalaryMonthly
            (calculateWPUSalary u m ap Lower meth b dp ct lv sa tp hc em pr (Some cap))"
  define hi where
    "hi = wpu_totalSalaryMonthly
            (calculateWPUSalary u m ap Higher meth b dp ct lv sa tp hc em pr (Some cap))"
  define olo where
    "olo = enf_originalSalaryAnnual (wpu_enforcement
             (calculateWPUSalary u m ap Lower meth b dp ct lv sa tp hc em pr (Some cap)))"
  define ohi where
    "ohi = enf_originalSalaryAnnual (wpu_enforcement
             (calculateWPUSalary u m ap Higher meth b dp ct lv sa tp hc em pr (Some cap)))"
  have le: "olo \<le> ohi"
    unfolding olo_def ohi_def by (rule original_Lower_le_Higher)
  have lo_cases: "lo = (if hard \<and> 0 < M \<and> M < olo then Math_round (M / 12) else olo / 12)"
    unfolding lo_def olo_def M_def hard_def by (rule wpu_totalSalaryMonthly_capped)
  have hi_cases: "hi = (if hard \<and> 0 < M \<and> M < ohi then Math_round (M / 12) else ohi / 12)"
    unfolding hi_def ohi_def M_def hard_def by (rule wpu_totalSalaryMonthly_capped)
  have capped_hi: "enf_salaryCapped (wpu_enforcement
        (calculateWPUSalary u m ap Higher meth b dp ct lv sa tp hc em pr (Some cap)))
      \<longleftrightarrow> 0 < M \<and> M < ohi"
    unfolding ohi_def M_def by (rule wpu_salaryCapped)
  have whole: "lo \<in> \<int>" if "hard" and "0 < M" and "M < ohi"
    using assms that unfolding lo_def Some capped_hi hard_def by simp
  have "lo \<le> hi"
  proof (cases "hard \<and> 0 < M \<and> M < ohi")
    case False
    with le have "\<not> (hard \<and> 0 < M \<and> M < olo)"
      by auto
    then have "lo = olo / 12"
      unfolding lo_cases by (rule if_not_P)
    moreover from False have "hi = ohi / 12"
      unfolding hi_cases by (rule if_not_P)
    ultimately show ?thesis
      using le by simp
  next
    case clamp_hi: True
    then have hi_eq: "hi = Math_round (M / 12)"
      unfolding hi_cases by simp
    show ?thesis
    proof (cases "M < olo")
      case True
      with clamp_hi have "lo = Math_round (M / 12)"
        unfolding lo_cases by simp
      with hi_eq show ?thesis by simp
    next
      case False
      then have lo_eq: "lo = olo / 12"
        unfolding lo_cases by simp
      from False have "lo \<le> M / 12"
        unfolding lo_eq by simp
      moreover from clamp_hi have "lo \<in> \<int>"
        by (simp add: whole)
      ultimately show ?thesis
        unfolding hi_eq by (simp add: whole_le_Math_round)
    qed
  qed
  then show ?thesis
    unfolding lo_def hi_def Some .
qed

text \<open>
  The theorem in hard mode with a cap of 1690948 a year: the \<open>lower\<close> call returns the
  unclamped 140912, the \<open>higher\<close> call is clamped to 140912. And in soft mode with a
  lump-sum HRA of 11540.25, where the \<open>lower\<close> call returns the fraction 140912.25.
\<close>

theorem higher_ge_lower_whole_witness:
  "enf_salaryCapped (wpu_enforcement (higherOffer Hard None))
   \<and> wpu_totalSalaryMonthly (lowerOffer Hard None) \<in> \<int>
   \<and> wpu_totalSalaryMonthly (lowerOffer Hard None) = 140912
   \<and> wpu_totalSalaryMonthly (lowerOffer Hard None)
       \<le> wpu_totalSalaryMonthly (higherOffer Hard None)
   \<and> wpu_totalSalaryMonthly (lowerOffer Soft (Some lumpSumHousing)) = 140912.25
   \<and> wpu_totalSalaryMonthly (lowerOffer Soft (Some lumpSumHousing))
       \<le> wpu_totalSalaryMonthly (higherOffer Soft (Some lumpSumHousing))"
  using higher_ge_lower_whole [where u = baselineCell0 and m = "1.3" and ap = 420000
      and meth = MethodA and b = DEFAULT_GLOBAL_BENEFITS and dp = 58 and ct = CityY
      and lv = "''10''" and sa = 0 and tp = False and hc = None and em = Hard and pr = None
      and sc = "Some capMaxOnly"]
    higher_ge_lower_whole [where u = baselineCell0 and m = "1.3" and ap = 420000
      and meth = MethodA and b = DEFAULT_GLOBAL_BENEFITS and dp = 58 and ct = CityY
      and lv = "''10''" and sa = 0 and tp = False and hc = "Some lumpSumHousing"
      and em = Soft and pr = None and sc = "Some capMaxOnly"]
  by (simp add: lowerOffer_def higherOffer_def capMaxOnly_def lumpSumHousing_def
      baselineCell0_eq DEFAULT_GLOBAL_BENEFITS_def wpu_defs calculateHRA_def Math_round_def
      Let_def)

text \<open>
  Claim C5 as stated covers every input. In hard mode with a lump-sum HRA of 11540.25
  the \<open>lower\<close> call stays under the cap and returns 140912.25, while the \<open>higher\<close>
  call is clamped to \<open>Math.round(1690948 / 12) = 140912\<close>.
\<close>

theorem higher_ge_lower_counterexample:
  "wpu_totalSalaryMonthly (higherOffer Hard (Some lumpSumHousing)) = 140912
   \<and> wpu_totalSalaryMonthly (lowerOffer Hard (Some lumpSumHousing)) = 140912.25
   \<and> wpu_totalSalaryMonthly (higherOffer Hard (Some lumpSumHousing))
       < wpu_totalSalaryMonthly (lowerOffer Hard (Some lumpSumHousing))"
  by (simp add: lowerOffer_def higherOffer_def capMaxOnly_def lumpSumHousing_def baselineCell0_eq
      DEFAULT_GLOBAL_BENEFITS_def wpu_defs calculateHRA_def Math_round_def Let_def)

subsection \<open>C6: the rounding rule\<close>

text \<open>
  Claim C6, as amended, on the double-precision functions. \<open>Math.round\<close> rounds to the
  nearest integer, a tie going towards plus infinity: it equals round-half-away-from-zero
  of the same argument except where the argument is negative with fractional part one
  half, and there it is greater by one. Every rounding step of the engine is
  \<open>Math.round\<close> of the double that the code has computed: the multiplicative bonus of
  method A (reported as such by the strategies \<open>multiplier\<close> and \<open>both\<close>, as such or
  as 0 by the others, and 0 under method B), the monthly premium (the same across
  strategies), the basic pay and dearness allowance of method B, \<open>calculateDA\<close>, the
  percentage HRA for every housing configuration, and the hard-mode clamps of salary
  and CTC.
\<close>

theorem rounding_is_half_up:
  "Math_round x =
     (if x < 0 \<and> frac x = 1 / 2 then round_half_away_from_zero x + 1
      else round_half_away_from_zero x)
   \<and> wpu_multiplierBonus
       (calculateWPUSalary_double u m ap Multiplier MethodA b dp ct lv sa tp hc em pr sc)
     = Math_round
         (js_mul
            (js_add (js_add (js_add (js_add (ugc_basic u) (ugc_da u))
               (fst (calculateHRA_double (ugc_basic u) ct hc))) (ugc_ta u)) sa)
            (js_sub m 1))
   \<and> wpu_multiplierBonus
       (calculateWPUSalary_double u m ap Both MethodA b dp ct lv sa tp hc em pr sc)
     = Math_round
         (js_mul
            (js_add (js_add (js_add (js_add (ugc_basic u) (ugc_da u))
               (fst (calculateHRA_double (ugc_basic u) ct hc))) (ugc_ta u)) sa)
            (js_sub m 1))
   \<and> (wpu_multiplierBonus
         (calculateWPUSalary_double u m ap s MethodA b dp ct lv sa tp hc em pr sc)
       = Math_round
           (js_mul
              (js_add (js_add (js_add (js_add (ugc_basic u) (ugc_da u))
                 (fst (calculateHRA_double (ugc_basic u) ct hc))) (ugc_ta u)) sa)
              (js_sub m 1))
       \<or> wpu_multiplierBonus
           (calculateWPUSalary_double u m ap s MethodA b dp ct lv sa tp hc em pr sc) = 0)
   \<and> wpu_multiplierBonus
       (calculateWPUSalary_double u m ap s MethodB b dp ct lv sa tp hc em pr sc) = 0
   \<and> wpu_premiumMonthly
       (calculateWPUSalary_double u m ap Premium meth b dp ct lv sa tp hc em pr sc)
     = Math_round (js_div ap 12)
   \<and> wpu_premiumMonthly
       (calculateWPUSalary_double u m ap Both meth b dp ct lv sa tp hc em pr sc)
     = Math_round (js_div ap 12)
   \<and> (wpu_premiumMonthly
         (calculateWPUSalary_double u m ap s meth b dp ct lv sa tp hc em pr sc)
       = Math_round (js_div ap 12)
       \<or> wpu_premiumMonthly
           (calculateWPUSalary_double u m ap s meth b dp ct lv sa tp hc em pr sc) = 0)
   \<and> wpu_basic
       (calculateWPUSalary_double u m ap Multiplier MethodB b dp ct lv sa tp hc em pr sc)
     = Math_round (js_mul (ugc_basic u) m)
   \<and> wpu_da
       (calculateWPUSalary_double u m ap Multiplier MethodB b dp ct lv sa tp hc em pr sc)
     = Math_round (js_mul (Math_round (js_mul (ugc_basic u) m)) (js_div dp 100))
   \<and> calculateDA_double basic dp = Math_round (js_mul basic (js_div dp 100))
   \<and> fst (calculateHRA_double basic ct hc)
     = (if snd (calculateHRA_double basic ct hc) = ModePercent
        then Math_round (js_mul basic (js_div (HRA_RATES_rate ct) 100))
        else if snd (calculateHRA_double basic ct hc) = ModeLumpsum
        then hc_lumpSumValue (the hc)
        else 0)
   \<and> fst (snd (snd (snd (salaryCapBlock_double Hard (Some cap) bb t c))))
     = (if 0 < cap_maxWPUSalaryAnnual cap \<and> cap_maxWPUSalaryAnnual cap < js_mul t 12
        then Math_round (js_div (cap_maxWPUSalaryAnnual cap) 12) else t)
   \<and> snd (snd (snd (snd (salaryCapBlock_double Hard (Some cap) bb t c))))
     = (let computedMaxCTC =
              (if 0 < cap_maxWPUCTCAnnual cap then cap_maxWPUCTCAnnual cap
               else if 0 < cap_maxWPUSalaryAnnual cap
                    then js_add (cap_maxWPUSalaryAnnual cap) (bb_totalAnnual bb) else 0);
            ctc = js_add (fst (snd (snd (snd (salaryCapBlock_double Hard (Some cap) bb t c)))))
                    (bb_totalMonthly bb)
        in if 0 < computedMaxCTC \<and> computedMaxCTC < js_mul ctc 12
           then Math_round (js_div computedMaxCTC 12) else ctc)"
proof (intro conjI)
  show "Math_round x =
          (if x < 0 \<and> frac x = 1 / 2 then round_half_away_from_zero x + 1
           else round_half_away_from_zero x)"
    by (rule Math_round_vs_half_away)
  show "wpu_multiplierBonus
       (calculateWPUSalary_double u m ap Multiplier MethodA b dp ct lv sa tp hc em pr sc)
     = Math_round
         (js_mul
            (js_add (js_add (js_add (js_add (ugc_basic u) (ugc_da u))
               (fst (calculateHRA_double (ugc_basic u) ct hc))) (ugc_ta u)) sa)
            (js_sub m 1))"
    by (rule multiplierBonus_double)
  show "wpu_multiplierBonus
       (calculateWPUSalary_double u m ap Both MethodA b dp ct lv sa tp hc em pr sc)
     = Math_round
         (js_mul
            (js_add (js_add (js_add (js_add (ugc_basic u) (ugc_da u))
               (fst (calculateHRA_double (ugc_basic u) ct hc))) (ugc_ta u)) sa)
            (js_sub m 1))"
    by (simp add: double_defs Let_def case_prod_beta)
  show "wpu_multiplierBonus
         (calculateWPUSalary_double u m ap s MethodA b dp ct lv sa tp hc em pr sc)
       = Math_round
           (js_mul
              (js_add (js_add (js_add (js_add (ugc_basic u) (ugc_da u))
                 (fst (calculateHRA_double (ugc_basic u) ct hc))) (ugc_ta u)) sa)
              (js_sub m 1))
       \<or> wpu_multiplierBonus
           (calculateWPUSalary_double u m ap s MethodA b dp ct lv sa tp hc em pr sc) = 0"
    by (cases s) (simp_all add: double_defs Let_def case_prod_beta)
  show "wpu_multiplierBonus
       (calculateWPUSalary_double u m ap s MethodB b dp ct lv sa tp hc em pr sc) = 0"
    by (cases s) (simp_all add: double_defs Let_def case_prod_beta)
  show "wpu_premiumMonthly
       (calculateWPUSalary_double u m ap Premium meth b dp ct lv sa tp hc em pr sc)
     = Math_round (js_div ap 12)"
    by (simp add: double_defs Let_def case_prod_beta)
  show "wpu_premiumMonthly
       (calculateWPUSalary_double u m ap Both meth b dp ct lv sa tp hc em pr sc)
     = Math_round (js_div ap 12)"
    by (simp add: double_defs Let_def case_prod_beta)
  show "wpu_premiumMonthly
         (calculateWPUSalary_double u m ap s meth b dp ct lv sa tp hc em pr sc)
       = Math_round (js_div ap 12)
       \<or> wpu_premiumMonthly
           (calculateWPUSalary_double u m ap s meth b dp ct lv sa tp hc em pr sc) = 0"
    by (cases s) (simp_all add: double_defs Let_def case_prod_beta)
  show "wpu_basic
       (calculateWPUSalary_double u m ap Multiplier MethodB b dp ct lv sa tp hc em pr sc)
     = Math_round (js_mul (ugc_basic u) m)"
    by (simp add: double_defs Let_def case_prod_beta)
  show "wpu_da
       (calculateWPUSalary_double u m ap Multiplier MethodB b dp ct lv sa tp hc em pr sc)
     = Math_round (js_mul (Math_round (js_mul (ugc_basic u) m)) (js_div dp 100))"
    by (simp add: double_defs calculateDA_double_def Let_def case_prod_beta)
  show "calculateDA_double basic dp = Math_round (js_mul basic (js_div dp 100))"
    by (simp add: calculateDA_double_def)
  show "fst (calculateHRA_double basic ct hc)
     = (if snd (calculateHRA_double basic ct hc) = ModePercent
        then Math_round (js_mul basic (js_div (HRA_RATES_rate ct) 100))
        else if snd (calculateHRA_double basic ct hc) = ModeLumpsum
        then hc_lumpSumValue (the hc)
        else 0)"
    by (simp add: calculateHRA_double_def split: option.splits)
  show "fst (snd (snd (snd (salaryCapBlock_double Hard (Some cap) bb t c))))
     = (if 0 < cap_maxWPUSalaryAnnual cap \<and> cap_maxWPUSalaryAnnual cap < js_mul t 12
        then Math_round (js_div (cap_maxWPUSalaryAnnual cap) 12) else t)"
    by (simp add: salaryCapBlock_double_def Let_def)
  show "snd (snd (snd (snd (salaryCapBlock_double Hard (Some cap) bb t c))))
     = (let computedMaxCTC =
              (if 0 < cap_maxWPUCTCAnnual cap then cap_maxWPUCTCAnnual cap
               else if 0 < cap_maxWPUSalaryAnnual cap
                    then js_add (cap_maxWPUSalaryAnnual cap) (bb_totalAnnual bb) else 0);
            ctc = js_add (fst (snd (snd (snd (salaryCapBlock_double Hard (Some cap) bb t c)))))
                    (bb_totalMonthly bb)
        in if 0 < computedMaxCTC \<and> computedMaxCTC < js_mul ctc 12
           then Math_round (js_div computedMaxCTC 12) else ctc)"
    by (simp add: salaryCapBlock_double_def Let_def)
qed

text \<open>
  Claim C6 as stated: on the baseline 108394 with multiplier 0.75 every operand and
  result is a double, the product is \<open>-27098.5\<close>; the engine's bonus is \<open>-27098\<close>,
  round-half-away-from-zero gives \<open>-27099\<close>.
\<close>

theorem rounding_half_away_counterexample:
  "wpu_multiplierBonus reducedOffer = - 27098
   \<and> (57700 + 33466 + 11540 + 5688 + 0) * (0.75 - 1.0) = (- 27098.5 :: real)
   \<and> round_half_away_from_zero ((57700 + 33466 + 11540 + 5688 + 0) * (0.75 - 1.0)) = - 27099
   \<and> wpu_multiplierBonus reducedOffer
       \<noteq> round_half_away_from_zero ((57700 + 33466 + 11540 + 5688 + 0) * (0.75 - 1.0))"
proof -
  have bonus: "wpu_multiplierBonus reducedOffer = - 27098"
    unfolding reducedOffer_def multiplierBonus_double baselineCell0_eq
    by code_simp
  have away: "round_half_away_from_zero ((57700 + 33466 + 11540 + 5688 + 0) * (0.75 - 1.0))
      = - 27099"
    by (simp add: round_half_away_from_zero_def)
  from bonus away show ?thesis
    by simp
qed

subsection \<open>C7: the percentage guard\<close>

text \<open>
  Claim C7, as amended. The orchestrator returns \<open>premiumPercentage = 0\<close> when the
  baseline's \<open>totalMonthly\<close> is zero or negative, and
  \<open>(premiumAmountMonthly / totalMonthly) * 100\<close> when it is positive.
\<close>

theorem premium_percentage_guard:
  "cmp_premiumPercentage
     (calculateComparison lv ci dp ct m ap s meth b sa tp hc em pr sc) =
     (if ugc_totalMonthly
           (cmp_ugc (calculateComparison lv ci dp ct m ap s meth b sa tp hc em pr sc)) \<le> 0
      then 0
      else cmp_premiumAmountMonthly
             (calculateComparison lv ci dp ct m ap s meth b sa tp hc em pr sc)
           / ugc_totalMonthly
               (cmp_ugc (calculateComparison lv ci dp ct m ap s meth b sa tp hc em pr sc))
           * 100)"
  by (simp add: calculateComparison_def Let_def)

text \<open>
  Claim C7 as stated gives the quotient whenever the baseline total is not 0. With a
  special allowance of \<open>-200000\<close> the baseline total is \<open>-91606\<close>, the quotient is not 0
  and the returned percentage is 0.
\<close>

theorem premium_percentage_counterexample:
  "ugc_totalMonthly (cmp_ugc negativeBaseline) = - 91606
   \<and> ugc_totalMonthly (cmp_ugc negativeBaseline) \<noteq> 0
   \<and> cmp_premiumPercentage negativeBaseline = 0
   \<and> cmp_premiumAmountMonthly negativeBaseline
       / ugc_totalMonthly (cmp_ugc negativeBaseline) * 100 \<noteq> 0"
  by (simp add: negativeBaseline_def calculateComparison_def getCellAmount_def PAY_MATRIX_def
      ugc_defs DEFAULT_GLOBAL_BENEFITS_def wpu_defs Let_def)

subsection \<open>C8: the defensive zero of the lookup\<close>

text \<open>
  Claim C8 asks for 0 at every level that is not a key of the pay matrix. The levels
  \<open>constructor\<close> and \<open>__proto__\<close> are not keys of the table, yet the lookup finds
  the inherited \<open>Object\<close> function (of length 1) and the prototype object, the guard
  lets index 0 through, and \<open>getCellAmount\<close> returns \<open>undefined\<close>; for
  \<open>__proto__\<close> it does so at every index from 0 on.
\<close>

theorem getCellAmount_inherited_level:
  "''constructor'' \<notin> dom PAY_MATRIX
   \<and> PAY_MATRIX_chain ''constructor'' = InheritedFunction 1
   \<and> getCellAmount_chain ''constructor'' 0 = None
   \<and> ''__proto__'' \<notin> dom PAY_MATRIX
   \<and> PAY_MATRIX_chain ''__proto__'' = InheritedObject
   \<and> getCellAmount_chain ''__proto__'' 0 = None
   \<and> getCellAmount_chain ''__proto__'' 40 = None"
  by (simp add: getCellAmount_chain_def PAY_MATRIX_chain_def PAY_MATRIX_def
      Object_prototype_def dom_def)

subsection \<open>C9: annual and monthly premium amounts\<close>

text \<open>
  Claim C9. In every result of the orchestrator \<open>premiumAmountAnnual\<close> is twelve times
  \<open>premiumAmountMonthly\<close>, and \<open>premiumAmountMonthly\<close> is the enhanced monthly CTC
  minus the baseline monthly total.
\<close>

theorem premium_amount_annual:
  "cmp_premiumAmountAnnual (calculateComparison lv ci dp ct m ap s meth b sa tp hc em pr sc)
     = cmp_premiumAmountMonthly
         (calculateComparison lv ci dp ct m ap s meth b sa tp hc em pr sc) * 12
   \<and> cmp_premiumAmountMonthly
       (calculateComparison lv ci dp ct m ap s meth b sa tp hc em pr sc)
     = wpu_totalCTCMonthly
         (cmp_wpu (calculateComparison lv ci dp ct m ap s meth b sa tp hc em pr sc))
       - ugc_totalMonthly
           (cmp_ugc (calculateComparison lv ci dp ct m ap s meth b sa tp hc em pr sc))"
  by (simp add: calculateComparison_def Let_def)

subsection \<open>C10: the baseline does not see the housing configuration\<close>

text \<open>
  Claim C10. Two calls of the orchestrator that differ only in the housing configuration
  return the same baseline breakdown; it is the baseline computed with no housing
  configuration, so its HRA is in percent mode at the city rate.
\<close>

theorem baseline_ignores_housing:
  "cmp_ugc (calculateComparison lv ci dp ct m ap s meth b sa tp hc1 em pr sc)
     = cmp_ugc (calculateComparison lv ci dp ct m ap s meth b sa tp hc2 em pr sc)
   \<and> cmp_ugc (calculateComparison lv ci dp ct m ap s meth b sa tp hc1 em pr sc)
     = calculateUGCSalary (getCellAmount lv ci) dp ct lv sa tp None
   \<and> ugc_hraMode (cmp_ugc (calculateComparison lv ci dp ct m ap s meth b sa tp hc1 em pr sc))
     = ModePercent
   \<and> ugc_hra (cmp_ugc (calculateComparison lv ci dp ct m ap s meth b sa tp hc1 em pr sc))
     = Math_round (getCellAmount lv ci * (HRA_RATES_rate ct / 100))"
  by (simp add: calculateComparison_def calculateUGCSalary_def calculateHRA_def Let_def)

end
